theory Spec2Isabelle
  imports Complex_Main
begin

section \<open>Numbers and vectors\<close>

text \<open>
  The games compute with JavaScript numbers. They are modelled by the reals: rounding,
  infinities and NaN are left out, so every statement below is about the exact arithmetic
  the code writes down. \<open>Math.pow\<close> is \<open>powr\<close> (the two agree for a positive base),
  \<open>Math.sign\<close> is \<open>sgn\<close>, \<open>Math.abs\<close> is \<open>abs\<close>. Wall-clock reads
  (\<open>Date.now()\<close>) are parameters of the step that performs them.
\<close>

record Vector3 =
  vx :: real
  vy :: real
  vz :: real

definition vec3 :: "real \<Rightarrow> real \<Rightarrow> real \<Rightarrow> Vector3" where
  "vec3 a b c = \<lparr>vx = a, vy = b, vz = c\<rparr>"

definition add :: "Vector3 \<Rightarrow> Vector3 \<Rightarrow> Vector3" where
  "add a b = \<lparr>vx = vx a + vx b, vy = vy a + vy b, vz = vz a + vz b\<rparr>"

definition sub :: "Vector3 \<Rightarrow> Vector3 \<Rightarrow> Vector3" where
  "sub a b = \<lparr>vx = vx a - vx b, vy = vy a - vy b, vz = vz a - vz b\<rparr>"

definition multiplyScalar :: "Vector3 \<Rightarrow> real \<Rightarrow> Vector3" where
  "multiplyScalar a s = \<lparr>vx = vx a * s, vy = vy a * s, vz = vz a * s\<rparr>"

definition vlength :: "Vector3 \<Rightarrow> real" where
  "vlength a = sqrt (vx a * vx a + vy a * vy a + vz a * vz a)"

text \<open>\<open>Vector3.normalize\<close> divides by \<open>length() || 1\<close>: the zero vector stays zero.\<close>

definition normalize :: "Vector3 \<Rightarrow> Vector3" where
  "normalize a =
     (let l = (if vlength a = 0 then 1 else vlength a)
      in \<lparr>vx = vx a / l, vy = vy a / l, vz = vz a / l\<rparr>)"

definition distanceTo :: "Vector3 \<Rightarrow> Vector3 \<Rightarrow> real" where
  "distanceTo a b = vlength (sub a b)"

text \<open>
  \<open>v.applyAxisAngle(new Vector3(0, 1, 0), angle)\<close>: the rotation of \<open>v\<close> about the
  vertical axis.
\<close>

definition applyAxisAngleY :: "Vector3 \<Rightarrow> real \<Rightarrow> Vector3" where
  "applyAxisAngleY v angle =
     \<lparr>vx = vx v * cos angle + vz v * sin angle,
      vy = vy v,
      vz = vz v * cos angle - vx v * sin angle\<rparr>"

text \<open>The part of a scene object (\<open>THREE.Group\<close>) the update steps read and write.\<close>

record Object3D =
  obj_position :: Vector3
  obj_rotation_y :: real

section \<open>The vehicle motion model\<close>

subsection \<open>Data\<close>

text \<open>
  \<open>carData\<close> of \<open>simple-js/game.js\<close>; the \<open>CarData\<close> interface of
  \<open>CarGame.tsx\<close> has the same fields first and then the steering and shooting ones.
\<close>

record CarData =
  speed :: real
  maxSpeed :: real
  acceleration :: real
  deceleration :: real
  turnSpeed :: real
  friction :: real
  brakeStrength :: real
  velocity :: Vector3
  direction :: Vector3
  position :: Vector3

record TankCarData = CarData +
  steeringAngle :: real
  maxSteeringAngle :: real
  steeringSpeed :: real
  steeringReturn :: real
  canShoot :: bool
  reloadTime :: real
  lastShotTime :: real

record Controls =
  forward :: bool
  backward :: bool
  left :: bool
  right :: bool

record TankControls = Controls +
  shoot :: bool

text \<open>The hover tank: \<open>carDataRef.current\<close> and \<open>carRef.current\<close> (null before \<open>createCar\<close>).\<close>

record TankState =
  carDataRef :: TankCarData
  carRef :: "Object3D option"

text \<open>The plain driving game: the globals \<open>carData\<close>, \<open>car\<close> and the camera position.\<close>

record SimpleState =
  carData :: CarData
  car :: Object3D
  cameraPosition :: Vector3

text \<open>The initial values of \<open>carDataRef\<close> in \<open>CarGame.tsx\<close>.\<close>

definition initialTankCarData :: TankCarData where
  "initialTankCarData =
     \<lparr>speed = 0, maxSpeed = 0.4, acceleration = 0.008, deceleration = 0.005,
      turnSpeed = 0.03, friction = 0.99, brakeStrength = 0.12,
      velocity = vec3 0 0 0, direction = vec3 0 0 1, position = vec3 0 0.5 0,
      steeringAngle = 0, maxSteeringAngle = 0.05, steeringSpeed = 0.003,
      steeringReturn = 0.02, canShoot = True, reloadTime = 1000, lastShotTime = 0\<rparr>"

text \<open>After \<open>createCar\<close>: the tank sits at \<open>(0, 0.8, 0)\<close>.\<close>

definition initialTank :: TankState where
  "initialTank =
     \<lparr>carDataRef = initialTankCarData,
      carRef = Some \<lparr>obj_position = vec3 0 0.8 0, obj_rotation_y = 0\<rparr>\<rparr>"

text \<open>The initial values of \<open>carData\<close> in \<open>game.js\<close>, the car at the origin.\<close>

definition initialCarData :: CarData where
  "initialCarData =
     \<lparr>speed = 0, maxSpeed = 0.3, acceleration = 0.005, deceleration = 0.003,
      turnSpeed = 0.03, friction = 0.95, brakeStrength = 0.1,
      velocity = vec3 0 0 0, direction = vec3 0 0 1, position = vec3 0 0.5 0\<rparr>"

definition initialSimple :: SimpleState where
  "initialSimple =
     \<lparr>carData = initialCarData,
      car = \<lparr>obj_position = vec3 0 0 0, obj_rotation_y = 0\<rparr>,
      cameraPosition = vec3 0 5 (-10)\<rparr>"

subsection \<open>The frame step of the hover tank\<close>

text \<open>
  \<open>animate\<close> derives the step's delta from two frame times and caps it at a tenth of a
  second.
\<close>

definition cappedDelta :: "real \<Rightarrow> real \<Rightarrow> real" where
  "cappedDelta lastTime time =
     (let delta = (if lastTime \<noteq> 0 then (time - lastTime) / 1000 else 0.016)
      in min delta 0.1)"

text \<open>
  \<open>updateCar(delta)\<close> of \<open>CarGame.tsx\<close>, in the order of the source. The function is
  cut into its three phases so that each can be reasoned about alone: the speed
  (acceleration, braking, friction, clamp), the steering angle (steer or return to centre,
  clamp), and the motion of the tank object.
\<close>

definition tankSpeed :: "real \<Rightarrow> TankControls \<Rightarrow> TankCarData \<Rightarrow> real" where
  "tankSpeed delta controls cd =
     (let scaledAcceleration = acceleration cd * delta * 60;
          scaledBrakeStrength = brakeStrength cd * delta * 60;
          speed1 = (if forward controls then speed cd + scaledAcceleration else speed cd);
          speed2 = (if backward controls
                    then (if speed1 > 0 then speed1 - scaledBrakeStrength
                          else speed1 - scaledAcceleration * 0.5)
                    else speed1);
          speed3 = speed2 * (friction cd powr (delta * 60))
      in max (min speed3 (maxSpeed cd)) (- maxSpeed cd * 0.5))"

definition tankSteering :: "real \<Rightarrow> TankControls \<Rightarrow> TankCarData \<Rightarrow> real" where
  "tankSteering delta controls cd =
     (let scaledSteeringSpeed = steeringSpeed cd * delta * 60;
          scaledSteeringReturn = steeringReturn cd * delta * 60;
          steer1 = (if left controls then steeringAngle cd + scaledSteeringSpeed
                    else if right controls then steeringAngle cd - scaledSteeringSpeed
                    else if steeringAngle cd > 0
                         then max 0 (steeringAngle cd - scaledSteeringReturn)
                    else if steeringAngle cd < 0
                         then min 0 (steeringAngle cd + scaledSteeringReturn)
                    else steeringAngle cd)
      in max (min steer1 (maxSteeringAngle cd)) (- maxSteeringAngle cd))"

text \<open>
  \<open>now\<close> is the value of \<open>Date.now()\<close> read for the hover effect. Without a tank object
  the function returns at once.
\<close>

definition updateCar :: "real \<Rightarrow> real \<Rightarrow> TankControls \<Rightarrow> TankState \<Rightarrow> TankState" where
  "updateCar delta now controls st =
     (case carRef st of
        None \<Rightarrow> st
      | Some carObj \<Rightarrow>
         (let cd = carDataRef st;
              newSpeed = tankSpeed delta controls cd;
              newSteering = tankSteering delta controls cd;
              turnEffect = newSteering * \<bar>newSpeed\<bar> / maxSpeed cd;
              rot = obj_rotation_y carObj + turnEffect * sgn newSpeed;
              dir = applyAxisAngleY (vec3 0 0 1) rot;
              movement = multiplyScalar dir newSpeed;
              pos1 = add (obj_position carObj) movement;
              hoverHeight = 0.8 + sin (now * 0.003) * 0.1
          in st\<lparr>carDataRef :=
                  cd\<lparr>speed := newSpeed, direction := dir, steeringAngle := newSteering\<rparr>,
                carRef := Some (carObj\<lparr>obj_position := pos1\<lparr>vy := hoverHeight\<rparr>,
                                       obj_rotation_y := rot\<rparr>)\<rparr>))"

subsection \<open>The frame step of the plain driving game\<close>

text \<open>
  \<open>updateCar()\<close> of \<open>simple-js/game.js\<close>; it has no delta. Again the speed phase
  (acceleration or braking or coasting, then the speed limits) and the turning phase are
  definitions of their own.
\<close>

definition simpleSpeed :: "Controls \<Rightarrow> CarData \<Rightarrow> real" where
  "simpleSpeed controls cd =
     (let speed1 =
            (if forward controls then speed cd + acceleration cd
             else if backward controls
                  then (if speed cd > 0 then speed cd - brakeStrength cd
                        else speed cd - acceleration cd / 2)
             else (let s = (if speed cd > 0 then speed cd - deceleration cd
                            else if speed cd < 0 then speed cd + deceleration cd
                            else speed cd)
                   in if \<bar>s\<bar> < deceleration cd then 0 else s))
      in if speed1 > maxSpeed cd then maxSpeed cd
         else if speed1 < - maxSpeed cd / 2 then - maxSpeed cd / 2
         else speed1)"

definition simpleTurn :: "Controls \<Rightarrow> CarData \<Rightarrow> real \<Rightarrow> real \<Rightarrow> real" where
  "simpleTurn controls cd newSpeed rot0 =
     (if \<bar>newSpeed\<bar> > 0.01
      then (let r1 = (if left controls then rot0 + turnSpeed cd * sgn newSpeed else rot0)
            in if right controls then r1 - turnSpeed cd * sgn newSpeed else r1)
      else rot0)"

definition updateCar_simple :: "Controls \<Rightarrow> SimpleState \<Rightarrow> SimpleState" where
  "updateCar_simple controls st =
     (let cd = carData st;
          newSpeed = simpleSpeed controls cd;
          rot = simpleTurn controls cd newSpeed (obj_rotation_y (car st));
          dir = applyAxisAngleY (vec3 0 0 1) rot;
          p = obj_position (car st);
          pos = \<lparr>vx = vx p + vx dir * newSpeed, vy = 0, vz = vz p + vz dir * newSpeed\<rparr>;
          cameraOffset = vec3 (- vx dir * 10) 5 (- vz dir * 10)
      in st\<lparr>carData := cd\<lparr>speed := newSpeed, direction := dir\<rparr>,
            car := \<lparr>obj_position = pos, obj_rotation_y = rot\<rparr>,
            cameraPosition := add pos cameraOffset\<rparr>)"

text \<open>
  Holding the same controls over \<open>n\<close> frames of equal delta; \<open>clock k\<close> is what
  \<open>Date.now()\<close> returns in frame \<open>k\<close>.
\<close>

fun frames :: "nat \<Rightarrow> real \<Rightarrow> (nat \<Rightarrow> real) \<Rightarrow> TankControls \<Rightarrow> TankState \<Rightarrow> TankState" where
  "frames 0 delta clock controls st = st"
| "frames (Suc n) delta clock controls st =
     updateCar delta (clock n) controls (frames n delta clock controls st)"

section \<open>The action game\<close>

subsection \<open>Library functions\<close>

text \<open>
  \<open>Math.atan2(y, x)\<close>, the angle of the point \<open>(x, y)\<close>, and the remainder operator
  \<open>%\<close> of JavaScript, whose result takes the sign of the dividend.
\<close>

definition atan2 :: "real \<Rightarrow> real \<Rightarrow> real" where
  "atan2 y x =
     (if x > 0 then arctan (y / x)
      else if x < 0 then (if y \<ge> 0 then arctan (y / x) + pi else arctan (y / x) - pi)
      else if y > 0 then pi / 2
      else if y < 0 then - pi / 2
      else 0)"

definition jsRem :: "real \<Rightarrow> real \<Rightarrow> real" where
  "jsRem a b =
     a - b * (if a / b \<ge> 0 then of_int \<lfloor>a / b\<rfloor> else of_int \<lceil>a / b\<rceil>)"

definition dot :: "Vector3 \<Rightarrow> Vector3 \<Rightarrow> real" where
  "dot a b = vx a * vx b + vy a * vy b + vz a * vz b"

subsection \<open>Data (\<open>types/game\<close>)\<close>

record GameState =
  isGameActive :: bool
  playerHealth :: real
  score :: real

record GameControls =
  moveForward :: bool
  moveBackward :: bool
  moveLeft :: bool
  moveRight :: bool
  attack :: bool
  block :: bool

datatype EnemyType = Wolf | Bear | Deer

datatype AggroState = Idle | Chase | Attack | Flee

record Character =
  ident :: string
  char_position :: Vector3
  char_rotation :: Vector3
  health :: real
  maxHealth :: real
  isAttacking :: bool
  isBlocking :: bool
  isDead :: bool

record Player = Character +
  moveSpeed :: real
  player_attackPower :: real
  isMoving :: bool
  player_direction :: Vector3

record Enemy = Character +
  etype :: EnemyType
  detectionRadius :: real
  attackRadius :: real
  attackPower :: real
  aggroState :: AggroState

text \<open>The state of the \<open>Game\<close> component: \<open>gameState\<close> and the \<open>enemies\<close> list.\<close>

record EnemyEntry =
  entry_id :: string
  entry_type :: EnemyType
  entry_position :: Vector3

record Game =
  gameState :: GameState
  enemies :: "EnemyEntry list"

definition initialGameState :: GameState where
  "initialGameState = \<lparr>isGameActive = True, playerHealth = 100, score = 0\<rparr>"

subsection \<open>The \<open>Game\<close> component's handlers\<close>

text \<open>
  \<open>handleEnemyAttack(damage)\<close>: \<open>actualDamage\<close> is its first constant, the rest is the
  state updater it passes to \<open>setGameState\<close>.
\<close>

definition actualDamage :: "GameControls \<Rightarrow> real \<Rightarrow> real" where
  "actualDamage controls damage =
     (if block controls then of_int \<lceil>damage / 2\<rceil> else damage)"

definition handleEnemyAttack :: "GameControls \<Rightarrow> real \<Rightarrow> GameState \<Rightarrow> GameState" where
  "handleEnemyAttack controls damage prev =
     (let newHealth = max 0 (playerHealth prev - actualDamage controls damage)
      in if newHealth \<le> 0 \<and> isGameActive prev
         then prev\<lparr>playerHealth := 0, isGameActive := False\<rparr>
         else prev\<lparr>playerHealth := newHealth\<rparr>)"

definition handleEnemyDeath :: "string \<Rightarrow> Game \<Rightarrow> Game" where
  "handleEnemyDeath i g =
     g\<lparr>enemies := filter (\<lambda>e. entry_id e \<noteq> i) (enemies g),
       gameState := (gameState g)\<lparr>score := score (gameState g) + 10\<rparr>\<rparr>"

definition handleRestart :: "Game \<Rightarrow> Game" where
  "handleRestart g = g\<lparr>gameState := initialGameState, enemies := []\<rparr>"

subsection \<open>The \<open>Enemy\<close> component\<close>

text \<open>
  An enemy component holds its React state \<open>enemy\<close>, the scene group behind its ref
  \<open>group\<close> (the field \<open>groupRef\<close>, null until mounted), and the ref
  \<open>lastAttackTime\<close>. Its effect with dependency list \<open>[id]\<close> runs once, after the first
  render, and stores that render's \<open>takeDamage\<close> on the group; the \<open>enemy\<close> this stored
  function closes over is kept in \<open>takeDamageEnemy\<close>. A frame callback runs on the state
  of the latest render, and the updaters it passes to \<open>setEnemy\<close> are applied in order
  before the next frame.
\<close>

record EnemyComp =
  enemy :: Enemy
  groupRef :: "Object3D option"
  lastAttackTime :: real
  takeDamageEnemy :: Enemy

definition attackCooldown :: real where
  "attackCooldown = 1000"

text \<open>The initial state: \<open>baseStats[type]\<close> and the flags.\<close>

definition initialEnemy :: "string \<Rightarrow> EnemyType \<Rightarrow> Vector3 \<Rightarrow> Enemy" where
  "initialEnemy i t initialPosition =
     \<lparr>ident = i, char_position = initialPosition, char_rotation = vec3 0 0 0,
      health = (case t of Wolf \<Rightarrow> 50 | Bear \<Rightarrow> 100 | Deer \<Rightarrow> 30),
      maxHealth = (case t of Wolf \<Rightarrow> 50 | Bear \<Rightarrow> 100 | Deer \<Rightarrow> 30),
      isAttacking = False, isBlocking = False, isDead = False,
      etype = t,
      detectionRadius = (case t of Wolf \<Rightarrow> 15 | Bear \<Rightarrow> 12 | Deer \<Rightarrow> 18),
      attackRadius = (case t of Wolf \<Rightarrow> 2 | Bear \<Rightarrow> 2.5 | Deer \<Rightarrow> 0),
      attackPower = (case t of Wolf \<Rightarrow> 10 | Bear \<Rightarrow> 20 | Deer \<Rightarrow> 0),
      aggroState = Idle\<rparr>"

definition mountEnemy :: "string \<Rightarrow> EnemyType \<Rightarrow> Vector3 \<Rightarrow> EnemyComp" where
  "mountEnemy i t initialPosition =
     \<lparr>enemy = initialEnemy i t initialPosition,
      groupRef = Some \<lparr>obj_position = initialPosition, obj_rotation_y = 0\<rparr>,
      lastAttackTime = 0,
      takeDamageEnemy = initialEnemy i t initialPosition\<rparr>"

text \<open>
  What both moving branches do to the group: turn it to the angle of \<open>direction\<close>, then
  step along \<open>direction\<close> in the ground plane.
\<close>

definition moveGroup :: "Object3D \<Rightarrow> Vector3 \<Rightarrow> real \<Rightarrow> Object3D" where
  "moveGroup g d s =
     g\<lparr>obj_rotation_y := atan2 (vx d) (vz d),
       obj_position := (obj_position g)\<lparr>vx := vx (obj_position g) + vx d * s,
                                         vz := vz (obj_position g) + vz d * s\<rparr>\<rparr>"

text \<open>
  The frame callback of \<open>Enemy\<close>. It returns the component and the damages it passed to
  \<open>onAttackPlayer\<close> in this frame. \<open>now\<close> is the value of \<open>Date.now()\<close>.
\<close>

definition enemyFrame ::
    "real \<Rightarrow> real \<Rightarrow> Vector3 \<Rightarrow> EnemyComp \<Rightarrow> EnemyComp \<times> real list" where
  "enemyFrame delta now playerPosition c =
     (case groupRef c of
        None \<Rightarrow> (c, [])
      | Some g \<Rightarrow>
         if isDead (enemy c) then (c, [])
         else
          (let e = enemy c;
               synced = e\<lparr>char_position := obj_position g,
                          char_rotation := vec3 0 (obj_rotation_y g) 0\<rparr>;
               distanceToPlayer = distanceTo (char_position e) playerPosition
           in if distanceToPlayer \<le> attackRadius e \<and> etype e \<noteq> Deer
              then (let e1 = (if aggroState e \<noteq> Attack then synced\<lparr>aggroState := Attack\<rparr>
                              else synced)
                    in if now - lastAttackTime c > attackCooldown
                       then (c\<lparr>enemy := e1\<lparr>isAttacking := True\<rparr>, lastAttackTime := now\<rparr>,
                             [attackPower e])
                       else (c\<lparr>enemy := e1\<rparr>, []))
              else if distanceToPlayer \<le> detectionRadius e
              then (if etype e = Deer
                    then (let e1 = (if aggroState e \<noteq> Flee then synced\<lparr>aggroState := Flee\<rparr>
                                    else synced);
                              d = normalize (sub (char_position e) playerPosition)
                          in (c\<lparr>enemy := e1,
                                groupRef := Some (moveGroup g d (0.08 * delta * 60))\<rparr>, []))
                    else (let e1 = (if aggroState e \<noteq> Chase then synced\<lparr>aggroState := Chase\<rparr>
                                    else synced);
                              d = normalize (sub playerPosition (char_position e))
                          in (c\<lparr>enemy := e1,
                                groupRef := Some (moveGroup g d (0.05 * delta * 60))\<rparr>, [])))
              else (c\<lparr>enemy := (if aggroState e \<noteq> Idle then synced\<lparr>aggroState := Idle\<rparr>
                                  else synced)\<rparr>, [])))"

text \<open>The timer started with an attack: 300 ms later it clears \<open>isAttacking\<close>.\<close>

definition attackAnimationEnd :: "EnemyComp \<Rightarrow> EnemyComp" where
  "attackAnimationEnd c = c\<lparr>enemy := (enemy c)\<lparr>isAttacking := False\<rparr>\<rparr>"

text \<open>
  \<open>takeDamage(amount)\<close>, as a function of the \<open>enemy\<close> of the render that created it:
  the new health is computed from that value, the updater changes the current state. It
  returns the component and the ids passed to \<open>onDeath\<close>.
\<close>

definition takeDamage :: "Enemy \<Rightarrow> real \<Rightarrow> EnemyComp \<Rightarrow> EnemyComp \<times> string list" where
  "takeDamage closureEnemy amount c =
     (let newHealth = max 0 (health closureEnemy - amount);
          dead = (newHealth \<le> 0)
      in (c\<lparr>enemy := (enemy c)\<lparr>health := newHealth, isDead := dead\<rparr>\<rparr>,
          if dead then [ident closureEnemy] else []))"

text \<open>\<open>group.current.takeDamage(amount)\<close>: the function the effect stored on the group.\<close>

definition groupTakeDamage :: "real \<Rightarrow> EnemyComp \<Rightarrow> EnemyComp \<times> string list" where
  "groupTakeDamage amount c = takeDamage (takeDamageEnemy c) amount c"

text \<open>
  A call of the stored \<open>takeDamage\<close> inside the game: \<open>onDeath\<close> is
  \<open>handleEnemyDeath\<close>.
\<close>

definition hitEnemy :: "real \<Rightarrow> EnemyComp \<times> Game \<Rightarrow> EnemyComp \<times> Game" where
  "hitEnemy amount cg =
     (let (c', deaths) = groupTakeDamage amount (fst cg)
      in (c', fold handleEnemyDeath deaths (snd cg)))"

text \<open>
  The body of the loop of \<open>handlePlayerAttack(position, direction)\<close> for one enemy whose
  group was found in the scene: within \<open>attackRange\<close> and inside the arc of
  \<open>attackAngle\<close> it takes the player's attack damage, 20.
\<close>

definition playerAttackOn :: "Vector3 \<Rightarrow> Vector3 \<Rightarrow> EnemyComp \<times> Game \<Rightarrow> EnemyComp \<times> Game" where
  "playerAttackOn pos dir cg =
     (case groupRef (fst cg) of
        None \<Rightarrow> cg
      | Some g \<Rightarrow>
         (let attackRange = 2.5;
              attackAngle = pi / 3;
              toEnemy = sub (obj_position g) pos;
              distance = vlength toEnemy
          in if distance \<le> attackRange
             then (let angleToDot = dot (normalize toEnemy) dir
                   in if angleToDot > cos (attackAngle / 2) then hitEnemy 20 cg else cg)
             else cg))"

text \<open>
  What happens to one enemy component over time: frames, calls of the stored
  \<open>takeDamage\<close>, and expiries of the attack timer, in any order. The run collects the
  damage events with the time of their frame. Each event starts from the component the
  previous one returned. The re-render React performs between frames also passes the
  \<open>position\<close> prop, a fresh vector of \<open>initialPosition\<close>, to the group again; the run
  does not model that, and what is proved about runs reads only \<open>lastAttackTime\<close>, which
  no render touches.
\<close>

datatype EnemyEvent = Frame real real Vector3 | Hit real | AttackAnimationEnd

fun enemyRun :: "EnemyEvent list \<Rightarrow> EnemyComp \<Rightarrow> (real \<times> real) list" where
  "enemyRun [] c = []"
| "enemyRun (Frame delta now playerPosition # es) c =
     map (\<lambda>d. (now, d)) (snd (enemyFrame delta now playerPosition c))
       @ enemyRun es (fst (enemyFrame delta now playerPosition c))"
| "enemyRun (Hit amount # es) c = enemyRun es (fst (groupTakeDamage amount c))"
| "enemyRun (AttackAnimationEnd # es) c = enemyRun es (attackAnimationEnd c)"

subsection \<open>The movement of the \<open>Player\<close> component\<close>

text \<open>
  The player component: its React state, the scene group behind its ref \<open>group\<close>, the
  current animation and the ref \<open>playerDirection\<close>.
\<close>

record PlayerComp =
  player :: Player
  pgroup :: "Object3D option"
  currentAnimation :: string
  playerDirection :: Vector3

definition initialPlayer :: Player where
  "initialPlayer =
     \<lparr>ident = ''player'', char_position = vec3 0 0 0, char_rotation = vec3 0 0 0,
      health = 100, maxHealth = 100, isAttacking = False, isBlocking = False,
      isDead = False, moveSpeed = 0.15, player_attackPower = 20, isMoving = False,
      player_direction = vec3 0 0 1\<rparr>"

text \<open>
  The combined direction of the forward, right and left inputs. \<open>camForward\<close> and
  \<open>camRight\<close> are the camera's forward and right vectors as \<open>applyQuaternion\<close> returns
  them; the step flattens and normalises them.
\<close>

definition moveDirection :: "Vector3 \<Rightarrow> Vector3 \<Rightarrow> GameControls \<Rightarrow> Vector3" where
  "moveDirection camForward camRight controls =
     (let cameraForward = normalize (camForward\<lparr>vy := 0\<rparr>);
          cameraRight = normalize (camRight\<lparr>vy := 0\<rparr>);
          d0 = vec3 0 0 0;
          d1 = (if moveForward controls then add d0 cameraForward else d0);
          d2 = (if moveRight controls then add d1 cameraRight else d1)
      in if moveLeft controls then sub d2 cameraRight else d2)"

text \<open>
  The movement part of the frame callback of \<open>Player\<close> (up to the animation switch). It
  returns the component and the positions passed to \<open>updatePosition\<close>. The camera
  follow and the attack and block handling after it do not write the group's position.
\<close>

definition playerMove ::
    "real \<Rightarrow> Vector3 \<Rightarrow> Vector3 \<Rightarrow> GameControls \<Rightarrow> PlayerComp \<Rightarrow> PlayerComp \<times> Vector3 list" where
  "playerMove delta camForward camRight controls c =
     (case pgroup c of
        None \<Rightarrow> (c, [])
      | Some g \<Rightarrow>
         (let md = moveDirection camForward camRight controls;
              backwardMovement = moveBackward controls;
              moveDistance = moveSpeed (player c) * delta * 60;
              backDir = vec3 (- sin (obj_rotation_y g)) 0 (- cos (obj_rotation_y g))
          in if backwardMovement \<and> vlength md = 0
             then (let p = (obj_position g)\<lparr>vx := vx (obj_position g) + vx backDir * moveDistance,
                                             vz := vz (obj_position g) + vz backDir * moveDistance\<rparr>
                   in (c\<lparr>player := (player c)\<lparr>char_position := p, isMoving := True\<rparr>,
                         pgroup := Some (g\<lparr>obj_position := p\<rparr>),
                         currentAnimation := ''run''\<rparr>, [p]))
             else if vlength md > 0
             then (let md1 = normalize md;
                       md2 = (if backwardMovement
                              then normalize (add md1 (multiplyScalar backDir 0.3))
                              else md1);
                       targetRotation = atan2 (vx md2) (vz md2);
                       rotDiff = targetRotation - obj_rotation_y g;
                       r0 = jsRem (rotDiff + pi) (pi * 2) - pi;
                       rotDiffAdjusted = (if r0 < - pi then r0 + pi * 2 else r0);
                       rot = obj_rotation_y g + rotDiffAdjusted * 0.15;
                       pdir = vec3 (sin rot) 0 (cos rot);
                       boundaryLimit = 50;
                       p = (obj_position g)
                             \<lparr>vx := max (- boundaryLimit)
                                      (min boundaryLimit (vx (obj_position g) + vx md2 * moveDistance)),
                              vz := max (- boundaryLimit)
                                      (min boundaryLimit (vz (obj_position g) + vz md2 * moveDistance))\<rparr>
                   in (c\<lparr>player := (player c)\<lparr>char_position := p,
                                               char_rotation := vec3 0 rot 0,
                                               isMoving := True,
                                               player_direction := pdir\<rparr>,
                         pgroup := Some \<lparr>obj_position = p, obj_rotation_y = rot\<rparr>,
                         playerDirection := pdir,
                         currentAnimation := ''run''\<rparr>, [p]))
             else if isMoving (player c)
             then (c\<lparr>player := (player c)\<lparr>isMoving := False\<rparr>,
                     currentAnimation := ''idle''\<rparr>, [])
             else (c, [])))"

section \<open>Properties of the vehicle motion model\<close>

lemma updateCar_carData:
  assumes "carRef st = Some carObj"
  shows "speed (carDataRef (updateCar delta now controls st)) =
           tankSpeed delta controls (carDataRef st)"
    and "steeringAngle (carDataRef (updateCar delta now controls st)) =
           tankSteering delta controls (carDataRef st)"
    and "maxSpeed (carDataRef (updateCar delta now controls st)) = maxSpeed (carDataRef st)"
    and "acceleration (carDataRef (updateCar delta now controls st)) =
           acceleration (carDataRef st)"
    and "friction (carDataRef (updateCar delta now controls st)) = friction (carDataRef st)"
    and "brakeStrength (carDataRef (updateCar delta now controls st)) =
           brakeStrength (carDataRef st)"
    and "carRef (updateCar delta now controls st) \<noteq> None"
  using assms by (simp_all add: updateCar_def Let_def)

lemma cappedDelta_le: "cappedDelta lastTime time \<le> 0.1"
  by (simp add: cappedDelta_def Let_def)

lemma tankSpeed_bounds:
  assumes "0 \<le> maxSpeed cd"
  shows "- maxSpeed cd * 0.5 \<le> tankSpeed delta controls cd"
    and "tankSpeed delta controls cd \<le> maxSpeed cd"
  using assms by (simp_all add: tankSpeed_def Let_def)

lemma tankSteering_bounds:
  assumes "0 \<le> maxSteeringAngle cd"
  shows "\<bar>tankSteering delta controls cd\<bar> \<le> maxSteeringAngle cd"
  using assms by (simp add: tankSteering_def Let_def abs_le_iff)

lemma updateCar_simple_carData:
  shows "speed (carData (updateCar_simple controls st)) = simpleSpeed controls (carData st)"
    and "maxSpeed (carData (updateCar_simple controls st)) = maxSpeed (carData st)"
  by (simp_all add: updateCar_simple_def Let_def)

lemma simpleSpeed_bounds:
  assumes "0 \<le> maxSpeed cd"
  shows "- maxSpeed cd * 0.5 \<le> simpleSpeed controls cd"
    and "simpleSpeed controls cd \<le> maxSpeed cd"
  using assms by (simp_all add: simpleSpeed_def Let_def)

text \<open>
  C1. After one frame step the speed lies in \<open>[-maxSpeed * 0.5, maxSpeed]\<close>, hence also
  \<open>\<bar>speed\<bar> \<le> maxSpeed\<close> and \<open>\<bar>speed\<bar> \<ge> -maxSpeed * 0.5\<close>, whatever the state, the
  control flags and the delta were, in the hover tank (once the tank object exists) and
  in the plain driving game. \<open>maxSpeed\<close> is a constant of either game (0.4 and 0.3) that no
  code writes; the bound needs it non-negative.
\<close>

theorem updateCar_speed_clamped:
  assumes "carRef st \<noteq> None"
    and "0 \<le> maxSpeed (carDataRef st)"
    and "0 \<le> maxSpeed (carData st')"
  shows "- maxSpeed (carDataRef st) * 0.5 \<le> speed (carDataRef (updateCar delta now controls st))
       \<and> speed (carDataRef (updateCar delta now controls st)) \<le> maxSpeed (carDataRef st)
       \<and> \<bar>speed (carDataRef (updateCar delta now controls st))\<bar> \<le> maxSpeed (carDataRef st)
       \<and> - maxSpeed (carDataRef st) * 0.5 \<le> \<bar>speed (carDataRef (updateCar delta now controls st))\<bar>
       \<and> maxSpeed (carDataRef (updateCar delta now controls st)) = maxSpeed (carDataRef st)
       \<and> - maxSpeed (carData st') * 0.5 \<le> speed (carData (updateCar_simple controls' st'))
       \<and> speed (carData (updateCar_simple controls' st')) \<le> maxSpeed (carData st')
       \<and> \<bar>speed (carData (updateCar_simple controls' st'))\<bar> \<le> maxSpeed (carData st')
       \<and> - maxSpeed (carData st') * 0.5 \<le> \<bar>speed (carData (updateCar_simple controls' st'))\<bar>
       \<and> maxSpeed (carData (updateCar_simple controls' st')) = maxSpeed (carData st')"
proof -
  from assms(1) obtain carObj where c: "carRef st = Some carObj" by auto
  define s where "s = speed (carDataRef (updateCar delta now controls st))"
  define m where "m = maxSpeed (carDataRef st)"
  define s' where "s' = speed (carData (updateCar_simple controls' st'))"
  define m' where "m' = maxSpeed (carData st')"
  have t: "- m * 0.5 \<le> s" "s \<le> m"
    using tankSpeed_bounds [OF assms(2), of delta controls]
    by (simp_all add: s_def m_def updateCar_carData(1) [OF c])
  have p: "- m' * 0.5 \<le> s'" "s' \<le> m'"
    using simpleSpeed_bounds [OF assms(3), of controls']
    by (simp_all add: s'_def m'_def updateCar_simple_carData(1))
  have m0: "0 \<le> m" "0 \<le> m'"
    using assms(2,3) by (simp_all add: m_def m'_def)
  have "- m * 0.5 \<le> s \<and> s \<le> m \<and> \<bar>s\<bar> \<le> m \<and> - m * 0.5 \<le> \<bar>s\<bar>
      \<and> - m' * 0.5 \<le> s' \<and> s' \<le> m' \<and> \<bar>s'\<bar> \<le> m' \<and> - m' * 0.5 \<le> \<bar>s'\<bar>"
    using t p m0 by auto
  then show ?thesis
    unfolding s_def m_def s'_def m'_def
    by (simp add: updateCar_carData(3) [OF c] updateCar_simple_carData(2))
qed

theorem updateCar_speed_clamped_witness:
  "carRef initialTank \<noteq> None
   \<and> 0 \<le> maxSpeed (carDataRef initialTank)
   \<and> 0 \<le> maxSpeed (carData initialSimple)
   \<and> speed (carDataRef (updateCar 0.1 0
        \<lparr>forward = True, backward = False, left = False, right = False, shoot = False\<rparr>
        initialTank)) \<le> maxSpeed (carDataRef initialTank)
   \<and> - maxSpeed (carData initialSimple) * 0.5 \<le> speed (carData (updateCar_simple
        \<lparr>forward = False, backward = True, left = False, right = False\<rparr> initialSimple))"
proof -
  have h: "carRef initialTank \<noteq> None" "0 \<le> maxSpeed (carDataRef initialTank)"
    "0 \<le> maxSpeed (carData initialSimple)"
    by (simp_all add: initialTank_def initialTankCarData_def initialSimple_def
        initialCarData_def)
  from h updateCar_speed_clamped [OF h, of "0.1" 0
      "\<lparr>forward = True, backward = False, left = False, right = False, shoot = False\<rparr>"
      "\<lparr>forward = False, backward = True, left = False, right = False\<rparr>"]
  show ?thesis by blast
qed

lemma tankSpeed_backward:
  assumes "backward controls"
  shows "tankSpeed delta controls cd =
     max (min ((if (if forward controls then speed cd + acceleration cd * delta * 60
                    else speed cd) > 0
                then (if forward controls then speed cd + acceleration cd * delta * 60
                      else speed cd) - brakeStrength cd * delta * 60
                else (if forward controls then speed cd + acceleration cd * delta * 60
                      else speed cd) - acceleration cd * delta * 60 * 0.5)
               * (friction cd powr (delta * 60)))
              (maxSpeed cd))
         (- maxSpeed cd * 0.5)"
  using assms by (simp add: tankSpeed_def Let_def)

lemma tankSpeed_forward:
  assumes "forward controls" "\<not> backward controls"
  shows "tankSpeed delta controls cd =
     max (min ((speed cd + acceleration cd * delta * 60) * (friction cd powr (delta * 60)))
              (maxSpeed cd))
         (- maxSpeed cd * 0.5)"
  using assms by (simp add: tankSpeed_def Let_def)

lemma ln_99: "- (1 / 99) \<le> ln (99 / 100 :: real)"
proof -
  have "ln (100 / 99 :: real) \<le> 100 / 99 - 1"
    by (rule ln_le_minus_one) simp
  moreover have "ln (99 / 100 :: real) = - ln (100 / 99)"
    using ln_inverse [of "100 / 99 :: real"] by simp
  ultimately show ?thesis by simp
qed

lemma friction_powr_bounds:
  assumes "0 < k" "k \<le> 6"
  shows "0 < (99 / 100 :: real) powr k" "(99 / 100 :: real) powr k < 1"
    "(4 / 10 :: real) < (4 / 10 + 8 / 1000 * k) * ((99 / 100) powr k)"
proof -
  let ?F = "(99 / 100 :: real) powr k"
  show "0 < ?F" by simp
  have lneg: "ln (99 / 100 :: real) < 0" by simp
  have F: "?F = exp (k * ln (99 / 100))" by (simp add: powr_def)
  have "k * ln (99 / 100 :: real) < 0"
    using assms(1) lneg by (simp add: mult_pos_neg)
  then show "?F < 1" unfolding F by simp
  have "1 - k / 99 \<le> 1 + k * ln (99 / 100 :: real)"
    using mult_left_mono [OF ln_99, of k] assms(1) by simp
  also have "\<dots> \<le> ?F" unfolding F by (rule exp_ge_add_one_self)
  finally have lb: "1 - k / 99 \<le> ?F" .
  have pos: "0 < (4 / 10 + 8 / 1000 * k :: real)" using assms(1) by simp
  have "0 < k * (392 / 1000 - 8 / 1000 * k)"
    using assms by (intro mult_pos_pos) simp_all
  then have "(4 / 10 :: real) < (4 / 10 + 8 / 1000 * k) * (1 - k / 99)"
    by (simp add: algebra_simps)
  also have "\<dots> \<le> (4 / 10 + 8 / 1000 * k) * ?F"
    using lb pos by (simp add: mult_left_mono)
  finally show "(4 / 10 :: real) < (4 / 10 + 8 / 1000 * k) * ?F" .
qed


lemma forward_step:
  fixes F M a s :: real
  assumes "0 < F" "F < 1" "M < (M + a) * F" "0 \<le> s" "s < M"
  shows "s < max (min ((s + a) * F) M) (- M * 0.5)"
    and "max (min ((s + a) * F) M) (- M * 0.5) \<le> M"
    and "min (s + ((M + a) * F - M)) M \<le> max (min ((s + a) * F) M) (- M * 0.5)"
proof -
  have "0 < (M - s) * (1 - F)"
    using assms by (intro mult_pos_pos) simp_all
  then have gain: "s + ((M + a) * F - M) < (s + a) * F"
    by (simp add: algebra_simps)
  have c: "0 < (M + a) * F - M" using assms(3) by simp
  from gain c have "s < (s + a) * F" by linarith
  with assms(5) show "s < max (min ((s + a) * F) M) (- M * 0.5)" by simp
  show "max (min ((s + a) * F) M) (- M * 0.5) \<le> M" using assms(4,5) by simp
  from gain show "min (s + ((M + a) * F - M)) M \<le> max (min ((s + a) * F) M) (- M * 0.5)"
    by simp
qed

lemma forward_step_top:
  fixes F M a :: real
  assumes "M < (M + a) * F" "0 \<le> M"
  shows "max (min ((M + a) * F) M) (- M * 0.5) = M"
  using assms by simp

lemma frames_invariants:
  assumes "carRef st \<noteq> None"
  shows "carRef (frames n delta clock controls st) \<noteq> None
       \<and> maxSpeed (carDataRef (frames n delta clock controls st)) = maxSpeed (carDataRef st)
       \<and> acceleration (carDataRef (frames n delta clock controls st)) =
           acceleration (carDataRef st)
       \<and> friction (carDataRef (frames n delta clock controls st)) = friction (carDataRef st)"
proof (induction n)
  case 0
  show ?case using assms by simp
next
  case (Suc n)
  then obtain carObj where "carRef (frames n delta clock controls st) = Some carObj"
    by auto
  from updateCar_carData(3,4,5,7) [OF this] Suc show ?case by simp
qed

lemma frames_speed_Suc:
  assumes "carRef st \<noteq> None"
  shows "speed (carDataRef (frames (Suc n) delta clock controls st)) =
         tankSpeed delta controls (carDataRef (frames n delta clock controls st))"
proof -
  from frames_invariants [OF assms, of n delta clock controls]
  obtain carObj where "carRef (frames n delta clock controls st) = Some carObj" by auto
  from updateCar_carData(1) [OF this] show ?thesis by simp
qed

text \<open>
  C3. The hover tank with its constants (acceleration 0.008, friction 0.99, maxSpeed 0.4),
  \<open>forward\<close> held and \<open>backward\<close> released, every frame at the same delta with
  \<open>0 < delta \<le> 0.1\<close>, started at a speed in \<open>[0, maxSpeed)\<close>: in every frame whose
  speed is below \<open>maxSpeed\<close> the step's speed is strictly greater and at most
  \<open>maxSpeed\<close>; a frame that starts at \<open>maxSpeed\<close> ends at \<open>maxSpeed\<close>; and the run
  does reach \<open>maxSpeed\<close> after finitely many frames and stays there.
\<close>

theorem forward_held_speed_increases:
  assumes "carRef st \<noteq> None"
    and "acceleration (carDataRef st) = 0.008"
    and "friction (carDataRef st) = 0.99"
    and "maxSpeed (carDataRef st) = 0.4"
    and "forward controls" and "\<not> backward controls"
    and "0 < delta" and "delta \<le> 0.1"
    and "0 \<le> speed (carDataRef st)" and "speed (carDataRef st) < 0.4"
  shows "(\<forall>n. (speed (carDataRef (frames n delta clock controls st)) < 0.4 \<longrightarrow>
                 speed (carDataRef (frames n delta clock controls st))
                   < speed (carDataRef (frames (Suc n) delta clock controls st))
               \<and> speed (carDataRef (frames (Suc n) delta clock controls st)) \<le> 0.4)
            \<and> (speed (carDataRef (frames n delta clock controls st)) = 0.4 \<longrightarrow>
                 speed (carDataRef (frames (Suc n) delta clock controls st)) = 0.4))
       \<and> (\<exists>N. \<forall>n\<ge>N. speed (carDataRef (frames n delta clock controls st)) = 0.4)"
proof -
  define k where "k = delta * 60"
  define F where "F = (99 / 100 :: real) powr k"
  define a where "a = 8 / 1000 * k"
  define M where "M = (4 / 10 :: real)"
  define c where "c = (M + a) * F - M"
  define S where "S n = speed (carDataRef (frames n delta clock controls st))" for n
  have k: "0 < k" "k \<le> 6" using assms(7,8) by (simp_all add: k_def)
  have F: "0 < F" "F < 1" "M < (M + a) * F"
    using friction_powr_bounds [OF k] by (simp_all add: F_def a_def M_def)
  have c: "0 < c" using F(3) by (simp add: c_def)
  have step: "S (Suc n) = max (min ((S n + a) * F) M) (- M * 0.5)" for n
  proof -
    from frames_invariants [OF assms(1), of n delta clock controls] assms(2,3,4)
    have "maxSpeed (carDataRef (frames n delta clock controls st)) = 4 / 10"
      "acceleration (carDataRef (frames n delta clock controls st)) = 8 / 1000"
      "friction (carDataRef (frames n delta clock controls st)) = 99 / 100"
      by simp_all
    note eqs = this
    show ?thesis
      unfolding S_def frames_speed_Suc [OF assms(1)] tankSpeed_forward [OF assms(5,6)] eqs
      by (simp add: F_def a_def M_def k_def)
  qed
  have S0: "0 \<le> S 0" "S 0 < M" using assms(9,10) by (simp_all add: S_def M_def)
  have range: "0 \<le> S n \<and> S n \<le> M" for n
  proof (induction n)
    case 0
    with S0 show ?case by simp
  next
    case (Suc n)
    show ?case
    proof (cases "S n < M")
      case True
      with Suc forward_step(1,2) [OF F, of "S n"] show ?thesis by (simp add: step)
    next
      case False
      with Suc have "S n = M" by simp
      with forward_step_top [OF F(3)] Suc show ?thesis by (simp add: step)
    qed
  qed
  have incr: "S n < S (Suc n) \<and> S (Suc n) \<le> M" if "S n < M" for n
    using forward_step(1,2) [OF F, of "S n"] range [of n] that by (simp add: step)
  have stay: "S (Suc n) = M" if "S n = M" for n
    using forward_step_top [OF F(3)] range [of n] that by (simp add: step)
  have lower: "min (S 0 + of_nat n * c) M \<le> S n" for n
  proof (induction n)
    case 0
    show ?case by simp
  next
    case (Suc n)
    show ?case
    proof (cases "S n < M")
      case True
      from forward_step(3) [OF F, of "S n"] range [of n] True
      have "min (S n + c) M \<le> S (Suc n)" by (simp add: step c_def)
      moreover have "S 0 + of_nat (Suc n) * c = (S 0 + of_nat n * c) + c"
        by (simp add: algebra_simps)
      with Suc c have "min (S 0 + of_nat (Suc n) * c) M \<le> min (S n + c) M"
        by linarith
      ultimately show ?thesis by linarith
    next
      case False
      with range [of n] have "S n = M" by simp
      then have "S (Suc n) = M" by (rule stay)
      then show ?thesis by simp
    qed
  qed
  obtain N where N: "M < of_nat N * c"
    using ex_less_of_nat_mult [OF c, of M] by blast
  have top: "S n = M" if "N \<le> n" for n
  proof -
    have "of_nat N * c \<le> of_nat n * c"
      using that c by (simp add: mult_right_mono)
    with N S0 have "M \<le> S 0 + of_nat n * c" by linarith
    with lower [of n] have "M \<le> S n" by simp
    with range [of n] show ?thesis by simp
  qed
  have "(\<forall>n. (S n < M \<longrightarrow> S n < S (Suc n) \<and> S (Suc n) \<le> M) \<and> (S n = M \<longrightarrow> S (Suc n) = M))
      \<and> (\<exists>N. \<forall>n\<ge>N. S n = M)"
    using incr stay top by blast
  then show ?thesis by (simp add: S_def M_def)
qed


theorem forward_held_speed_increases_witness:
  "carRef initialTank \<noteq> None
   \<and> acceleration (carDataRef initialTank) = 0.008
   \<and> friction (carDataRef initialTank) = 0.99
   \<and> maxSpeed (carDataRef initialTank) = 0.4
   \<and> forward \<lparr>forward = True, backward = False, left = False, right = False, shoot = False\<rparr>
   \<and> \<not> backward \<lparr>forward = True, backward = False, left = False, right = False, shoot = False\<rparr>
   \<and> (0::real) < 1 / 60 \<and> (1 / 60 :: real) \<le> 0.1
   \<and> 0 \<le> speed (carDataRef initialTank) \<and> speed (carDataRef initialTank) < 0.4
   \<and> speed (carDataRef (frames 0 (1 / 60) (\<lambda>n. 0)
         \<lparr>forward = True, backward = False, left = False, right = False, shoot = False\<rparr>
         initialTank))
       < speed (carDataRef (frames (Suc 0) (1 / 60) (\<lambda>n. 0)
         \<lparr>forward = True, backward = False, left = False, right = False, shoot = False\<rparr>
         initialTank))
   \<and> (\<exists>N. speed (carDataRef (frames N (1 / 60) (\<lambda>n. 0)
         \<lparr>forward = True, backward = False, left = False, right = False, shoot = False\<rparr>
         initialTank)) = 0.4)"
proof -
  let ?c = "\<lparr>forward = True, backward = False, left = False, right = False, shoot = False\<rparr>"
  have h: "carRef initialTank \<noteq> None"
    "acceleration (carDataRef initialTank) = 0.008"
    "friction (carDataRef initialTank) = 0.99"
    "maxSpeed (carDataRef initialTank) = 0.4"
    "forward ?c" "\<not> backward ?c"
    "(0::real) < 1 / 60" "(1 / 60 :: real) \<le> 0.1"
    "0 \<le> speed (carDataRef initialTank)" "speed (carDataRef initialTank) < 0.4"
    by (simp_all add: initialTank_def initialTankCarData_def)
  from forward_held_speed_increases [OF h, of "\<lambda>n. 0"]
  have a: "\<forall>n. (speed (carDataRef (frames n (1 / 60) (\<lambda>n. 0) ?c initialTank)) < 0.4 \<longrightarrow>
                 speed (carDataRef (frames n (1 / 60) (\<lambda>n. 0) ?c initialTank))
                   < speed (carDataRef (frames (Suc n) (1 / 60) (\<lambda>n. 0) ?c initialTank))
               \<and> speed (carDataRef (frames (Suc n) (1 / 60) (\<lambda>n. 0) ?c initialTank)) \<le> 0.4)
            \<and> (speed (carDataRef (frames n (1 / 60) (\<lambda>n. 0) ?c initialTank)) = 0.4 \<longrightarrow>
                 speed (carDataRef (frames (Suc n) (1 / 60) (\<lambda>n. 0) ?c initialTank)) = 0.4)"
    and b: "\<exists>N. \<forall>n\<ge>N. speed (carDataRef (frames n (1 / 60) (\<lambda>n. 0) ?c initialTank)) = 0.4"
    by blast+
  from a h(10) have "speed (carDataRef (frames 0 (1 / 60) (\<lambda>n. 0) ?c initialTank))
       < speed (carDataRef (frames (Suc 0) (1 / 60) (\<lambda>n. 0) ?c initialTank))"
    by (metis frames.simps(1))
  moreover from b have "\<exists>N. speed (carDataRef (frames N (1 / 60) (\<lambda>n. 0) ?c initialTank)) = 0.4"
    by blast
  ultimately show ?thesis using h by blast
qed

text \<open>
  C7. A frame step of the hover tank with \<open>backward\<close> set. The speed the braking test
  looks at is the current one (after the acceleration of the same frame when \<open>forward\<close>
  is set too). If it is positive the step subtracts the scaled brake strength
  \<open>brakeStrength * delta * 60\<close>; otherwise it subtracts half of the scaled acceleration
  \<open>acceleration * delta * 60\<close>. Friction and the clamp follow.
\<close>

theorem updateCar_backward:
  assumes "carRef st \<noteq> None" and "backward controls"
  shows "(let cd = carDataRef st;
              s = (if forward controls then speed cd + acceleration cd * delta * 60
                   else speed cd)
          in speed (carDataRef (updateCar delta now controls st)) =
             max (min ((if s > 0 then s - brakeStrength cd * delta * 60
                        else s - acceleration cd * delta * 60 * 0.5)
                       * (friction cd powr (delta * 60)))
                      (maxSpeed cd))
                 (- maxSpeed cd * 0.5))"
proof -
  from assms(1) obtain carObj where "carRef st = Some carObj" by auto
  from updateCar_carData(1) [OF this] tankSpeed_backward [OF assms(2)]
  show ?thesis by (simp add: Let_def)
qed

theorem updateCar_backward_witness:
  "carRef initialTank \<noteq> None
   \<and> backward \<lparr>forward = False, backward = True, left = False, right = False, shoot = False\<rparr>
   \<and> speed (carDataRef (updateCar (1 / 60) 0
        \<lparr>forward = False, backward = True, left = False, right = False, shoot = False\<rparr>
        initialTank))
     = max (min ((0 - 0.008 * (1 / 60) * 60 * 0.5) * (0.99 powr (1 / 60 * 60))) 0.4) (- 0.4 * 0.5)"
proof -
  let ?c = "\<lparr>forward = False, backward = True, left = False, right = False, shoot = False\<rparr>"
  have h: "carRef initialTank \<noteq> None" "backward ?c"
    by (simp_all add: initialTank_def)
  from updateCar_backward [OF h, of "1 / 60" 0] h show ?thesis
    by (simp add: Let_def initialTank_def initialTankCarData_def)
qed

lemma tankSpeed_standstill:
  assumes "speed cd = 0" "0 \<le> maxSpeed cd" "\<not> forward controls" "\<not> backward controls"
  shows "tankSpeed delta controls cd = 0"
  using assms by (simp add: tankSpeed_def Let_def)

lemma simpleSpeed_standstill:
  assumes "speed cd = 0" "0 \<le> maxSpeed cd" "\<not> forward controls" "\<not> backward controls"
  shows "simpleSpeed controls cd = 0"
  using assms by (simp add: simpleSpeed_def Let_def)

lemma updateCar_standstill:
  assumes "carRef st = Some carObj"
    and "speed (carDataRef st) = 0" and "0 \<le> maxSpeed (carDataRef st)"
    and "\<not> forward controls" and "\<not> backward controls"
  shows "carRef (updateCar delta now controls st) =
           Some (carObj\<lparr>obj_position :=
                   (obj_position carObj)\<lparr>vy := 0.8 + sin (now * 0.003) * 0.1\<rparr>\<rparr>)"
  using assms(1) tankSpeed_standstill [OF assms(2,3,4,5), of delta]
  by (simp add: updateCar_def Let_def add_def multiplyScalar_def)

text \<open>
  C8, as stated, fails for the hover tank: the tank created by \<open>createCar\<close> stands at
  \<open>(0, 0.8, 0)\<close> with speed 0; a frame with no control set, at clock value 500, puts it at
  \<open>(0, 0.8 + sin 1.5 * 0.1, 0)\<close>, so its position changes.
\<close>

theorem hover_moves_standing_tank:
  "speed (carDataRef initialTank) = 0
   \<and> carRef initialTank = Some \<lparr>obj_position = vec3 0 0.8 0, obj_rotation_y = 0\<rparr>
   \<and> carRef (updateCar (1 / 60) 500
        \<lparr>forward = False, backward = False, left = False, right = False, shoot = False\<rparr>
        initialTank)
       = Some \<lparr>obj_position = vec3 0 (0.8 + sin (3 / 2) * 0.1) 0, obj_rotation_y = 0\<rparr>
   \<and> obj_position (the (carRef (updateCar (1 / 60) 500
        \<lparr>forward = False, backward = False, left = False, right = False, shoot = False\<rparr>
        initialTank)))
     \<noteq> obj_position (the (carRef initialTank))"
proof -
  let ?c = "\<lparr>forward = False, backward = False, left = False, right = False, shoot = False\<rparr>"
  have i: "speed (carDataRef initialTank) = 0"
    "carRef initialTank = Some \<lparr>obj_position = vec3 0 0.8 0, obj_rotation_y = 0\<rparr>"
    "0 \<le> maxSpeed (carDataRef initialTank)" "\<not> forward ?c" "\<not> backward ?c"
    by (simp_all add: initialTank_def initialTankCarData_def)
  from updateCar_standstill [OF i(2,1,3,4,5), of "1 / 60" 500]
  have after: "carRef (updateCar (1 / 60) 500 ?c initialTank)
      = Some \<lparr>obj_position = vec3 0 (0.8 + sin (3 / 2) * 0.1) 0, obj_rotation_y = 0\<rparr>"
    by (simp add: vec3_def)
  have "0 < sin (3 / 2 :: real)"
    using pi_ge_two by (intro sin_gt_zero) simp_all
  then have "vec3 0 (0.8 + sin (3 / 2) * 0.1) 0 \<noteq> vec3 0 0.8 0"
    by (simp add: vec3_def)
  with i(1,2) after show ?thesis by simp
qed

text \<open>
  C8, amended. With no control set and speed 0 a frame step leaves the speed at 0, the
  rotation and the ground coordinates \<open>x\<close> and \<open>z\<close> of the vehicle as they were, in both
  games. The height is not kept: the hover tank is put at the bobbing height
  \<open>0.8 + sin (now * 0.003) * 0.1\<close>, the plain car at height 0.
\<close>

theorem standstill_keeps_ground_position:
  assumes "carRef st = Some carObj"
    and "speed (carDataRef st) = 0" and "0 < maxSpeed (carDataRef st)"
    and "\<not> forward controls" and "\<not> backward controls"
    and "\<not> left controls" and "\<not> right controls"
    and "speed (carData st') = 0" and "0 \<le> maxSpeed (carData st')"
    and "\<not> forward controls'" and "\<not> backward controls'"
    and "\<not> left controls'" and "\<not> right controls'"
  shows "carRef (updateCar delta now controls st) =
           Some (carObj\<lparr>obj_position :=
                   (obj_position carObj)\<lparr>vy := 0.8 + sin (now * 0.003) * 0.1\<rparr>\<rparr>)
       \<and> speed (carDataRef (updateCar delta now controls st)) = 0
       \<and> car (updateCar_simple controls' st') =
           (car st')\<lparr>obj_position := (obj_position (car st'))\<lparr>vy := 0\<rparr>\<rparr>
       \<and> speed (carData (updateCar_simple controls' st')) = 0"
proof -
  have t: "tankSpeed delta controls (carDataRef st) = 0"
    using assms(2,3,4,5) by (intro tankSpeed_standstill) simp_all
  have s: "simpleSpeed controls' (carData st') = 0"
    using assms(8,9,10,11) by (intro simpleSpeed_standstill) simp_all
  have "carRef (updateCar delta now controls st) =
           Some (carObj\<lparr>obj_position :=
                   (obj_position carObj)\<lparr>vy := 0.8 + sin (now * 0.003) * 0.1\<rparr>\<rparr>)"
    using assms(2,3,4,5) by (intro updateCar_standstill [OF assms(1)]) simp_all
  moreover have "speed (carDataRef (updateCar delta now controls st)) = 0"
    using updateCar_carData(1) [OF assms(1)] t by simp
  moreover have "car (updateCar_simple controls' st') =
           (car st')\<lparr>obj_position := (obj_position (car st'))\<lparr>vy := 0\<rparr>\<rparr>"
    using s by (simp add: updateCar_simple_def Let_def simpleTurn_def)
  moreover have "speed (carData (updateCar_simple controls' st')) = 0"
    using s by (simp add: updateCar_simple_carData(1))
  ultimately show ?thesis by blast
qed

theorem standstill_keeps_ground_position_witness:
  "carRef initialTank = Some \<lparr>obj_position = vec3 0 0.8 0, obj_rotation_y = 0\<rparr>
   \<and> speed (carDataRef initialTank) = 0 \<and> 0 < maxSpeed (carDataRef initialTank)
   \<and> speed (carData initialSimple) = 0 \<and> 0 \<le> maxSpeed (carData initialSimple)
   \<and> carRef (updateCar (1 / 60) 500
        \<lparr>forward = False, backward = False, left = False, right = False, shoot = False\<rparr>
        initialTank)
       = Some \<lparr>obj_position = vec3 0 (0.8 + sin (500 * 0.003) * 0.1) 0, obj_rotation_y = 0\<rparr>
   \<and> car (updateCar_simple
        \<lparr>forward = False, backward = False, left = False, right = False\<rparr> initialSimple)
       = \<lparr>obj_position = vec3 0 0 0, obj_rotation_y = 0\<rparr>"
proof -
  let ?c = "\<lparr>forward = False, backward = False, left = False, right = False, shoot = False\<rparr>"
  let ?c' = "\<lparr>forward = False, backward = False, left = False, right = False\<rparr>"
  have h: "carRef initialTank = Some \<lparr>obj_position = vec3 0 0.8 0, obj_rotation_y = 0\<rparr>"
    "speed (carDataRef initialTank) = 0" "0 < maxSpeed (carDataRef initialTank)"
    "\<not> forward ?c" "\<not> backward ?c" "\<not> left ?c" "\<not> right ?c"
    "speed (carData initialSimple) = 0" "0 \<le> maxSpeed (carData initialSimple)"
    "\<not> forward ?c'" "\<not> backward ?c'" "\<not> left ?c'" "\<not> right ?c'"
    by (simp_all add: initialTank_def initialTankCarData_def initialSimple_def
        initialCarData_def)
  from standstill_keeps_ground_position [OF h, of "1 / 60" 500] h(1,2,3,8,9)
  show ?thesis by (simp add: vec3_def initialSimple_def)
qed

section \<open>Properties of the action game\<close>

lemma handleRestart_resets:
  "playerHealth (gameState (handleRestart g)) = 100"
  "score (gameState (handleRestart g)) = 0"
  "isGameActive (gameState (handleRestart g))"
  "enemies (handleRestart g) = []"
  by (simp_all add: handleRestart_def initialGameState_def)

lemma handleEnemyAttack_playerHealth:
  "playerHealth (handleEnemyAttack controls damage prev) =
     max 0 (playerHealth prev - actualDamage controls damage)"
  by (simp add: handleEnemyAttack_def Let_def)

text \<open>
  C5, as stated, fails in two ways. A player at health 5 who takes an unblocked hit of 10
  ends at health 0, which is not 5 less the full damage; and a blocked hit of 15 on a
  player at health 100 leaves 92, which is not 100 less half the damage.
\<close>

theorem enemy_hit_reduction_counterexample:
  "playerHealth (handleEnemyAttack
       \<lparr>moveForward = False, moveBackward = False, moveLeft = False, moveRight = False,
        attack = False, block = False\<rparr>
       10 \<lparr>isGameActive = True, playerHealth = 5, score = 0\<rparr>) \<noteq> 5 - 10
   \<and> playerHealth (handleEnemyAttack
       \<lparr>moveForward = False, moveBackward = False, moveLeft = False, moveRight = False,
        attack = False, block = True\<rparr>
       15 \<lparr>isGameActive = True, playerHealth = 100, score = 0\<rparr>) \<noteq> 100 - 15 / 2"
proof -
  have "\<lceil>15 / 2 :: real\<rceil> = 8" by linarith
  then show ?thesis
    by (simp add: handleEnemyAttack_playerHealth actualDamage_def)
qed

text \<open>
  C5, amended. An enemy damage event sets \<open>playerHealth\<close> to
  \<open>max 0 (playerHealth - a)\<close>, where \<open>a\<close> is the full damage when the block flag is
  inactive and the damage halved and rounded up when it is active (exactly half for an
  even whole damage, such as the wolf's 10 and the bear's 20). A player at health 100 who
  takes an unblocked hit of 20 and then a blocked hit of 20 is at 80 and then at 70.
\<close>

theorem handleEnemyAttack_health:
  "playerHealth (handleEnemyAttack controls damage prev) =
     max 0 (playerHealth prev - (if block controls then of_int \<lceil>damage / 2\<rceil> else damage))
   \<and> of_int \<lceil>(2 * of_int n :: real) / 2\<rceil> = (2 * of_int n :: real) / 2
   \<and> playerHealth (handleEnemyAttack
        \<lparr>moveForward = False, moveBackward = False, moveLeft = False, moveRight = False,
         attack = False, block = False\<rparr> 20 initialGameState) = 80
   \<and> playerHealth (handleEnemyAttack
        \<lparr>moveForward = False, moveBackward = False, moveLeft = False, moveRight = False,
         attack = False, block = True\<rparr> 20
        (handleEnemyAttack
          \<lparr>moveForward = False, moveBackward = False, moveLeft = False, moveRight = False,
           attack = False, block = False\<rparr> 20 initialGameState)) = 70"
proof -
  have "\<lceil>20 / 2 :: real\<rceil> = 10" by linarith
  then show ?thesis
    by (simp add: handleEnemyAttack_playerHealth actualDamage_def initialGameState_def)
qed

lemma ceiling_half: "\<lceil>(of_int n :: real) / 2\<rceil> = (n + 1) div 2"
proof -
  have "\<lceil>(of_int n :: real) / of_int 2\<rceil> = - (- n div 2)"
    by (rule ceiling_divide_eq_div)
  then show ?thesis by simp
qed

text \<open>
  C10. With the block flag active the damage subtracted from \<open>playerHealth\<close> is
  \<open>\<lceil>damage / 2\<rceil>\<close> (the health never goes below 0). For a whole damage \<open>n > 0\<close> this
  is the whole number \<open>(n + 1) div 2\<close>, which is at least 1; a blocked hit of 15 subtracts
  8, so a player at 100 is left with 92.
\<close>

theorem blocked_damage_rounds_up:
  assumes "block controls" and "0 < (n::int)"
  shows "actualDamage controls damage = of_int \<lceil>damage / 2\<rceil>
       \<and> playerHealth (handleEnemyAttack controls damage prev) =
           max 0 (playerHealth prev - of_int \<lceil>damage / 2\<rceil>)
       \<and> actualDamage controls (of_int n) = of_int ((n + 1) div 2)
       \<and> 1 \<le> (n + 1) div 2
       \<and> actualDamage controls 15 = 8
       \<and> playerHealth (handleEnemyAttack controls 15 initialGameState) = 100 - 8"
proof -
  have a: "actualDamage controls d = of_int \<lceil>d / 2\<rceil>" for d
    using assms(1) by (simp add: actualDamage_def)
  have "\<lceil>15 / 2 :: real\<rceil> = 8" by linarith
  then have b: "actualDamage controls 15 = 8" by (simp add: a)
  have c: "1 \<le> (n + 1) div 2" using assms(2) by linarith
  show ?thesis
    using a b c ceiling_half [of n]
    by (simp add: handleEnemyAttack_playerHealth initialGameState_def)
qed

theorem blocked_damage_rounds_up_witness:
  "block \<lparr>moveForward = False, moveBackward = False, moveLeft = False, moveRight = False,
         attack = False, block = True\<rparr>
   \<and> (0::int) < 15
   \<and> actualDamage \<lparr>moveForward = False, moveBackward = False, moveLeft = False,
         moveRight = False, attack = False, block = True\<rparr> (of_int 15) = of_int ((15 + 1) div 2)
   \<and> playerHealth (handleEnemyAttack \<lparr>moveForward = False, moveBackward = False,
         moveLeft = False, moveRight = False, attack = False, block = True\<rparr> 15
         initialGameState) = 100 - 8"
proof -
  let ?c = "\<lparr>moveForward = False, moveBackward = False, moveLeft = False, moveRight = False,
         attack = False, block = True\<rparr>"
  have h: "block ?c" "(0::int) < 15" by simp_all
  from blocked_damage_rounds_up [OF h, of 0 initialGameState] h show ?thesis by blast
qed

text \<open>
  The stored \<open>takeDamage\<close> always starts from the health of the first render, so hits do
  not add up; a \<open>takeDamage\<close> that closed over the current state would.
\<close>

lemma groupTakeDamage_health:
  "health (enemy (fst (groupTakeDamage amount c))) = max 0 (health (takeDamageEnemy c) - amount)"
  "isDead (enemy (fst (groupTakeDamage amount c))) = (health (takeDamageEnemy c) - amount \<le> 0)"
  "takeDamageEnemy (fst (groupTakeDamage amount c)) = takeDamageEnemy c"
  "snd (groupTakeDamage amount c) =
     (if health (takeDamageEnemy c) - amount \<le> 0 then [ident (takeDamageEnemy c)] else [])"
  by (simp_all add: groupTakeDamage_def takeDamage_def Let_def)

lemma hits_do_not_accumulate:
  "health (enemy (fst (groupTakeDamage b (fst (groupTakeDamage a c))))) =
     max 0 (health (takeDamageEnemy c) - b)"
  by (simp add: groupTakeDamage_health)

lemma takeDamage_on_current_state:
  "health (enemy (mountEnemy ''wolf-0'' Wolf p)) = 50"
  "health (enemy (fst (takeDamage (enemy (mountEnemy ''wolf-0'' Wolf p)) 20
                         (mountEnemy ''wolf-0'' Wolf p)))) = 30"
  "snd (takeDamage (enemy (mountEnemy ''wolf-0'' Wolf p)) 20 (mountEnemy ''wolf-0'' Wolf p)) = []"
  "health (enemy (fst (takeDamage (enemy c) 30 c))) = max 0 (health (enemy c) - 30)"
  "health (enemy c) = 30 \<Longrightarrow> snd (takeDamage (enemy c) 30 c) = [ident (enemy c)]"
  by (simp_all add: takeDamage_def mountEnemy_def initialEnemy_def Let_def)

text \<open>
  C6 does not hold of the code. A wolf (health 50) is mounted and its stored
  \<open>takeDamage\<close> is called with 20 and then with 30, \<open>onDeath\<close> being
  \<open>handleEnemyDeath\<close>. The second call computes \<open>max 0 (50 - 30)\<close> from the health of
  the first render: the wolf ends at health 20, alive, no death event is raised, and the
  enemy list and the score are unchanged.
\<close>

theorem stale_takeDamage_keeps_wolf_alive:
  "health (enemy (mountEnemy ''wolf-0'' Wolf (vec3 0 0 1))) = 50
   \<and> health (enemy (fst (hitEnemy 30 (hitEnemy 20
        (mountEnemy ''wolf-0'' Wolf (vec3 0 0 1),
         \<lparr>gameState = initialGameState,
          enemies = [\<lparr>entry_id = ''wolf-0'', entry_type = Wolf,
                      entry_position = vec3 0 0 1\<rparr>]\<rparr>))))) = 20
   \<and> \<not> isDead (enemy (fst (hitEnemy 30 (hitEnemy 20
        (mountEnemy ''wolf-0'' Wolf (vec3 0 0 1),
         \<lparr>gameState = initialGameState,
          enemies = [\<lparr>entry_id = ''wolf-0'', entry_type = Wolf,
                      entry_position = vec3 0 0 1\<rparr>]\<rparr>)))))
   \<and> snd (groupTakeDamage 20 (mountEnemy ''wolf-0'' Wolf (vec3 0 0 1))) = []
   \<and> snd (groupTakeDamage 30 (fst (groupTakeDamage 20
        (mountEnemy ''wolf-0'' Wolf (vec3 0 0 1))))) = []
   \<and> snd (hitEnemy 30 (hitEnemy 20
        (mountEnemy ''wolf-0'' Wolf (vec3 0 0 1),
         \<lparr>gameState = initialGameState,
          enemies = [\<lparr>entry_id = ''wolf-0'', entry_type = Wolf,
                      entry_position = vec3 0 0 1\<rparr>]\<rparr>)))
       = \<lparr>gameState = initialGameState,
          enemies = [\<lparr>entry_id = ''wolf-0'', entry_type = Wolf,
                      entry_position = vec3 0 0 1\<rparr>]\<rparr>"
  by (simp add: hitEnemy_def groupTakeDamage_def takeDamage_def mountEnemy_def
      initialEnemy_def Let_def)

text \<open>
  The same defect on the path the game takes: \<open>handlePlayerAttack\<close> passes 20 to the
  stored \<open>takeDamage\<close> for an enemy in range and in the arc. Three such attacks on a wolf
  at distance 1 straight ahead leave it at health 30.
\<close>

lemma cos_30_less_1: "cos (pi / 3 / 2) < (1::real)"
proof -
  have "cos (pi / 6) < cos (0::real)"
    by (rule cos_monotone_0_pi) (use pi_gt_zero in simp_all)
  then show ?thesis by simp
qed

lemma player_attack_hits:
  assumes "groupRef (fst cg) = Some g"
    and "vlength (sub (obj_position g) pos) \<le> 2.5"
    and "dot (normalize (sub (obj_position g) pos)) dir > cos (pi / 3 / 2)"
  shows "playerAttackOn pos dir cg = hitEnemy 20 cg"
  using assms by (simp add: playerAttackOn_def Let_def)

lemma hitEnemy_fields:
  "groupRef (fst (hitEnemy amount cg)) = groupRef (fst cg)"
  "takeDamageEnemy (fst (hitEnemy amount cg)) = takeDamageEnemy (fst cg)"
  "health (enemy (fst (hitEnemy amount cg))) =
     max 0 (health (takeDamageEnemy (fst cg)) - amount)"
  by (simp_all add: hitEnemy_def groupTakeDamage_def takeDamage_def Let_def split: prod.splits)

lemma player_attacks_leave_wolf_at_30:
  "health (enemy (fst (playerAttackOn (vec3 0 0 0) (vec3 0 0 1)
     (playerAttackOn (vec3 0 0 0) (vec3 0 0 1)
       (playerAttackOn (vec3 0 0 0) (vec3 0 0 1)
          (mountEnemy ''wolf-0'' Wolf (vec3 0 0 1), g)))))) = 30"
proof -
  let ?hit = "playerAttackOn (vec3 0 0 0) (vec3 0 0 1)"
  let ?o = "\<lparr>obj_position = vec3 0 0 1, obj_rotation_y = 0\<rparr>"
  have geom: "vlength (sub (obj_position ?o) (vec3 0 0 0)) \<le> 2.5"
    "dot (normalize (sub (obj_position ?o) (vec3 0 0 0))) (vec3 0 0 1) > cos (pi / 3 / 2)"
    using cos_30_less_1
    by (simp_all add: vlength_def sub_def vec3_def dot_def normalize_def)
  have step: "?hit cg = hitEnemy 20 cg" if "groupRef (fst cg) = Some ?o" for cg
    using player_attack_hits [OF that geom] .
  let ?s0 = "(mountEnemy ''wolf-0'' Wolf (vec3 0 0 1), g)"
  have g0: "groupRef (fst ?s0) = Some ?o" by (simp add: mountEnemy_def)
  have t0: "health (takeDamageEnemy (fst ?s0)) = 50"
    by (simp add: mountEnemy_def initialEnemy_def)
  have s1: "?hit ?s0 = hitEnemy 20 ?s0" using step [OF g0] .
  have g1: "groupRef (fst (hitEnemy 20 ?s0)) = Some ?o"
    using g0 by (simp only: hitEnemy_fields)
  have s2: "?hit (hitEnemy 20 ?s0) = hitEnemy 20 (hitEnemy 20 ?s0)" using step [OF g1] .
  have g2: "groupRef (fst (hitEnemy 20 (hitEnemy 20 ?s0))) = Some ?o"
    using g1 by (simp only: hitEnemy_fields)
  have s3: "?hit (hitEnemy 20 (hitEnemy 20 ?s0)) = hitEnemy 20 (hitEnemy 20 (hitEnemy 20 ?s0))"
    using step [OF g2] .
  have "health (enemy (fst (hitEnemy 20 (hitEnemy 20 (hitEnemy 20 ?s0))))) = 30"
    using t0 by (simp add: hitEnemy_fields)
  then show ?thesis by (simp only: s1 s2 s3)
qed

subsection \<open>The enemy's attacks\<close>

lemma enemyFrame_emits:
  "snd (enemyFrame delta now p c) = []
   \<or> (now - lastAttackTime c > attackCooldown
      \<and> lastAttackTime (fst (enemyFrame delta now p c)) = now
      \<and> snd (enemyFrame delta now p c) = [attackPower (enemy c)])"
  by (auto simp: enemyFrame_def Let_def split: option.splits)

lemma enemyFrame_silent:
  "snd (enemyFrame delta now p c) = [] \<Longrightarrow>
     lastAttackTime (fst (enemyFrame delta now p c)) = lastAttackTime c"
  by (auto simp: enemyFrame_def Let_def split: option.splits if_splits)

lemma other_events_keep_lastAttackTime:
  "lastAttackTime (fst (groupTakeDamage amount c)) = lastAttackTime c"
  "lastAttackTime (attackAnimationEnd c) = lastAttackTime c"
  by (simp_all add: groupTakeDamage_def takeDamage_def attackAnimationEnd_def Let_def)

lemma enemyRun_separated:
  "sorted_wrt (\<lambda>a b. fst b - fst a > attackCooldown) (enemyRun es c)
   \<and> (\<forall>e \<in> set (enemyRun es c). fst e - lastAttackTime c > attackCooldown)"
proof (induction es arbitrary: c)
  case Nil
  show ?case by simp
next
  case (Cons ev es)
  show ?case
  proof (cases ev)
    case (Frame delta now p)
    let ?c1 = "fst (enemyFrame delta now p c)"
    note IH = Cons.IH [of ?c1]
    show ?thesis
    proof (cases "snd (enemyFrame delta now p c) = []")
      case True
      with IH enemyFrame_silent [OF True] Frame show ?thesis by simp
    next
      case False
      with enemyFrame_emits [of delta now p c]
      have e: "now - lastAttackTime c > attackCooldown" "lastAttackTime ?c1 = now"
        "snd (enemyFrame delta now p c) = [attackPower (enemy c)]"
        by simp_all
      have pos: "0 < attackCooldown" by (simp add: attackCooldown_def)
      from IH e(2) have later: "\<forall>x \<in> set (enemyRun es ?c1). fst x - now > attackCooldown"
        by simp
      with e(1) pos have "\<forall>x \<in> set (enemyRun es ?c1). fst x - lastAttackTime c > attackCooldown"
        by fastforce
      with IH later e(1,3) Frame show ?thesis by simp
    qed
  next
    case (Hit amount)
    with Cons.IH [of "fst (groupTakeDamage amount c)"] show ?thesis
      by (simp add: other_events_keep_lastAttackTime)
  next
    case AttackAnimationEnd
    with Cons.IH [of "attackAnimationEnd c"] show ?thesis
      by (simp add: other_events_keep_lastAttackTime)
  qed
qed

text \<open>
  C4. \<open>attackCooldown\<close> is 1000. In any run of one enemy component (frames at arbitrary
  clock values, damage taken and attack timers expiring in between) any two damage events
  it emits are more than \<open>attackCooldown\<close> apart, the later one later. And a frame
  emits at most one event, only when \<open>now - lastAttackTime\<close> exceeds the cooldown, and
  then sets \<open>lastAttackTime\<close> to \<open>now\<close>.
\<close>

theorem attacks_separated_by_cooldown:
  "attackCooldown = 1000
   \<and> (\<forall>i j. i < j \<and> j < length (enemyRun es c) \<longrightarrow>
          fst (enemyRun es c ! j) - fst (enemyRun es c ! i) > attackCooldown)
   \<and> (snd (enemyFrame delta now p c) = []
      \<or> (now - lastAttackTime c > attackCooldown
         \<and> lastAttackTime (fst (enemyFrame delta now p c)) = now
         \<and> snd (enemyFrame delta now p c) = [attackPower (enemy c)]))"
proof -
  have "sorted_wrt (\<lambda>a b. fst b - fst a > attackCooldown) (enemyRun es c)"
    using enemyRun_separated [of es c] by simp
  then have "\<forall>i j. i < j \<and> j < length (enemyRun es c) \<longrightarrow>
          fst (enemyRun es c ! j) - fst (enemyRun es c ! i) > attackCooldown"
    by (simp add: sorted_wrt_iff_nth_less)
  with enemyFrame_emits [of delta now p c] show ?thesis
    by (simp add: attackCooldown_def)
qed

lemma wolf_run:
  "enemyRun [Frame (1 / 60) 2000 (vec3 0 0 0), Frame (1 / 60) 2500 (vec3 0 0 0),
             Hit 20, Frame (1 / 60) 3500 (vec3 0 0 0)]
     (mountEnemy ''wolf-0'' Wolf (vec3 0 0 1)) = [(2000, 10), (3500, 10)]"
  by (simp add: enemyFrame_def mountEnemy_def initialEnemy_def Let_def distanceTo_def
      vlength_def sub_def vec3_def attackCooldown_def groupTakeDamage_def takeDamage_def)

theorem attacks_separated_by_cooldown_witness:
  "enemyRun [Frame (1 / 60) 2000 (vec3 0 0 0), Frame (1 / 60) 2500 (vec3 0 0 0),
             Hit 20, Frame (1 / 60) 3500 (vec3 0 0 0)]
     (mountEnemy ''wolf-0'' Wolf (vec3 0 0 1)) = [(2000, 10), (3500, 10)]
   \<and> (0::nat) < 1
   \<and> 1 < length (enemyRun [Frame (1 / 60) 2000 (vec3 0 0 0), Frame (1 / 60) 2500 (vec3 0 0 0),
             Hit 20, Frame (1 / 60) 3500 (vec3 0 0 0)]
     (mountEnemy ''wolf-0'' Wolf (vec3 0 0 1)))
   \<and> fst (enemyRun [Frame (1 / 60) 2000 (vec3 0 0 0), Frame (1 / 60) 2500 (vec3 0 0 0),
             Hit 20, Frame (1 / 60) 3500 (vec3 0 0 0)]
     (mountEnemy ''wolf-0'' Wolf (vec3 0 0 1)) ! 1)
     - fst (enemyRun [Frame (1 / 60) 2000 (vec3 0 0 0), Frame (1 / 60) 2500 (vec3 0 0 0),
             Hit 20, Frame (1 / 60) 3500 (vec3 0 0 0)]
     (mountEnemy ''wolf-0'' Wolf (vec3 0 0 1)) ! 0) > attackCooldown"
proof -
  let ?r = "enemyRun [Frame (1 / 60) 2000 (vec3 0 0 0), Frame (1 / 60) 2500 (vec3 0 0 0),
             Hit 20, Frame (1 / 60) 3500 (vec3 0 0 0)]
     (mountEnemy ''wolf-0'' Wolf (vec3 0 0 1))"
  have len: "(0::nat) < 1 \<and> 1 < length ?r" unfolding wolf_run by simp
  from attacks_separated_by_cooldown
    [of "[Frame (1 / 60) 2000 (vec3 0 0 0), Frame (1 / 60) 2500 (vec3 0 0 0),
             Hit 20, Frame (1 / 60) 3500 (vec3 0 0 0)]"
        "mountEnemy ''wolf-0'' Wolf (vec3 0 0 1)"]
  have "\<forall>i j. i < j \<and> j < length ?r \<longrightarrow> fst (?r ! j) - fst (?r ! i) > attackCooldown"
    by blast
  with len have "fst (?r ! 1) - fst (?r ! 0) > attackCooldown" by blast
  with len wolf_run show ?thesis by blast
qed

subsection \<open>The enemy between its two radii\<close>

text \<open>
  The heading \<open>(sin a, cos a)\<close> of the angle \<open>a = atan2 y x\<close>, scaled by the length of
  \<open>(x, y)\<close>, is \<open>(y, x)\<close>: turning an object to \<open>atan2 (vx d) (vz d)\<close> makes it face
  along \<open>d\<close> in the ground plane.
\<close>

lemma sqrt_scale:
  fixes x y :: real
  assumes "x \<noteq> 0"
  shows "sqrt (x * x + y * y) = \<bar>x\<bar> * sqrt (1 + (y / x)\<^sup>2)"
proof -
  have "x * x + y * y = x\<^sup>2 * (1 + (y / x)\<^sup>2)"
    using assms by (simp add: power2_eq_square field_simps)
  then show ?thesis by (simp add: real_sqrt_mult)
qed

lemma atan2_heading:
  "sin (atan2 y x) * sqrt (x * x + y * y) = y"
  "cos (atan2 y x) * sqrt (x * x + y * y) = x"
proof -
  have pos: "0 < sqrt (1 + (y / x)\<^sup>2)"
    by (simp add: add_pos_nonneg)
  consider "x > 0" | "x < 0" "y \<ge> 0" | "x < 0" "y < 0" | "x = 0"
    by linarith
  then have "sin (atan2 y x) * sqrt (x * x + y * y) = y
           \<and> cos (atan2 y x) * sqrt (x * x + y * y) = x"
  proof cases
    case 1
    then show ?thesis
      using pos by (simp add: atan2_def sqrt_scale sin_arctan cos_arctan)
  next
    case 2
    then show ?thesis
      using pos by (simp add: atan2_def sqrt_scale sin_arctan cos_arctan)
  next
    case 3
    then show ?thesis
      using pos by (simp add: atan2_def sqrt_scale sin_arctan cos_arctan sin_diff cos_diff)
  next
    case 4
    then show ?thesis
      by (simp add: atan2_def)
  qed
  then show "sin (atan2 y x) * sqrt (x * x + y * y) = y"
    and "cos (atan2 y x) * sqrt (x * x + y * y) = x"
    by simp_all
qed


lemma vlength_nonneg: "0 \<le> vlength v"
  by (simp add: vlength_def)

lemma vlength_zero:
  assumes "vlength v = 0"
  shows "vx v = 0" "vy v = 0" "vz v = 0"
proof -
  from assms have z: "vx v * vx v + vy v * vy v + vz v * vz v = 0"
    by (simp add: vlength_def)
  have n: "0 \<le> vx v * vx v" "0 \<le> vy v * vy v" "0 \<le> vz v * vz v" by simp_all
  from z n have "vx v * vx v = 0" "vy v * vy v = 0" "vz v * vz v = 0" by linarith+
  then show "vx v = 0" "vy v = 0" "vz v = 0" by simp_all
qed

lemma vlength_sub_commute: "vlength (sub a b) = vlength (sub b a)"
proof -
  have "(vx a - vx b) * (vx a - vx b) = (vx b - vx a) * (vx b - vx a)"
    "(vy a - vy b) * (vy a - vy b) = (vy b - vy a) * (vy b - vy a)"
    "(vz a - vz b) * (vz a - vz b) = (vz b - vz a) * (vz b - vz a)"
    by (simp_all add: algebra_simps)
  then show ?thesis by (simp add: vlength_def sub_def)
qed

lemma normalize_components:
  "vx (normalize v) = vx v / vlength v"
  "vy (normalize v) = vy v / vlength v"
  "vz (normalize v) = vz v / vlength v"
  using vlength_zero [of v] by (auto simp: normalize_def Let_def)

lemma heading_of_normalized:
  "sin (atan2 (vx (normalize v)) (vz (normalize v))) * sqrt (vx v * vx v + vz v * vz v) = vx v"
  "cos (atan2 (vx (normalize v)) (vz (normalize v))) * sqrt (vx v * vx v + vz v * vz v) = vz v"
proof -
  define l where "l = vlength v"
  define X where "X = vz v / l"
  define Y where "Y = vx v / l"
  have n: "vx (normalize v) = Y" "vz (normalize v) = X"
    by (simp_all add: normalize_components X_def Y_def l_def)
  have "sin (atan2 Y X) * sqrt (vx v * vx v + vz v * vz v) = vx v
      \<and> cos (atan2 Y X) * sqrt (vx v * vx v + vz v * vz v) = vz v"
  proof (cases "l = 0")
    case True
    with vlength_zero [of v] show ?thesis by (simp add: l_def)
  next
    case False
    with vlength_nonneg [of v] have l: "0 < l" by (simp add: l_def)
    have "X * X + Y * Y = (vx v * vx v + vz v * vz v) / (l * l)"
      by (simp add: X_def Y_def add_divide_distrib)
    then have "sqrt (X * X + Y * Y) = sqrt (vx v * vx v + vz v * vz v) / l"
      using l by (simp add: real_sqrt_divide)
    with atan2_heading [of Y X]
    have "sin (atan2 Y X) * (sqrt (vx v * vx v + vz v * vz v) / l) = vx v / l"
      "cos (atan2 Y X) * (sqrt (vx v * vx v + vz v * vz v) / l) = vz v / l"
      by (simp_all add: X_def Y_def)
    with l show ?thesis by (simp add: field_simps)
  qed
  then show "sin (atan2 (vx (normalize v)) (vz (normalize v)))
       * sqrt (vx v * vx v + vz v * vz v) = vx v"
    and "cos (atan2 (vx (normalize v)) (vz (normalize v)))
       * sqrt (vx v * vx v + vz v * vz v) = vz v"
    by (simp_all add: n)
qed

lemma moveGroup_fields:
  "vx (obj_position (moveGroup g d s)) = vx (obj_position g) + vx d * s"
  "vy (obj_position (moveGroup g d s)) = vy (obj_position g)"
  "vz (obj_position (moveGroup g d s)) = vz (obj_position g) + vz d * s"
  "obj_rotation_y (moveGroup g d s) = atan2 (vx d) (vz d)"
  by (simp_all add: moveGroup_def)

lemma enemyFrame_between_radii:
  assumes "groupRef c = Some g" and "\<not> isDead (enemy c)"
    and "attackRadius (enemy c) < distanceTo (char_position (enemy c)) p"
    and "distanceTo (char_position (enemy c)) p \<le> detectionRadius (enemy c)"
  shows "snd (enemyFrame delta now p c) = []"
    and "etype (enemy c) \<noteq> Deer \<Longrightarrow>
           aggroState (enemy (fst (enemyFrame delta now p c))) = Chase"
    and "etype (enemy c) \<noteq> Deer \<Longrightarrow>
           groupRef (fst (enemyFrame delta now p c)) =
             Some (moveGroup g (normalize (sub p (char_position (enemy c))))
                     (0.05 * delta * 60))"
    and "etype (enemy c) = Deer \<Longrightarrow>
           aggroState (enemy (fst (enemyFrame delta now p c))) = Flee"
    and "etype (enemy c) = Deer \<Longrightarrow>
           groupRef (fst (enemyFrame delta now p c)) =
             Some (moveGroup g (normalize (sub (char_position (enemy c)) p))
                     (0.08 * delta * 60))"
  using assms by (simp_all add: enemyFrame_def Let_def)

text \<open>
  C2. A live enemy with a scene group whose distance \<open>d\<close> to the player (from its
  recorded position \<open>ep\<close>) satisfies \<open>attackRadius < d \<le> detectionRadius\<close>: one frame
  emits no attack and leaves its \<open>aggroState\<close> neither \<open>Attack\<close> nor \<open>Idle\<close>. A wolf or
  bear is in \<open>Chase\<close>; its group moves by \<open>0.05 * delta * 60\<close> times the unit vector from
  \<open>ep\<close> to the player (in \<open>x\<close> and \<open>z\<close>, the height is kept) and is turned to face the
  player: its heading times the ground distance \<open>h\<close> is the offset to the player. A
  deer is in \<open>Flee\<close>; its group moves by \<open>0.08 * delta * 60\<close> times the unit vector from
  the player to \<open>ep\<close> and faces away from the player.
\<close>

theorem enemy_between_radii:
  assumes "groupRef c = Some g" and "\<not> isDead (enemy c)"
    and "attackRadius (enemy c) < distanceTo (char_position (enemy c)) p"
    and "distanceTo (char_position (enemy c)) p \<le> detectionRadius (enemy c)"
  shows "(let e = enemy c; ep = char_position e; d = distanceTo ep p;
              h = sqrt ((vx p - vx ep) * (vx p - vx ep) + (vz p - vz ep) * (vz p - vz ep));
              c' = fst (enemyFrame delta now p c);
              g' = the (groupRef c')
          in snd (enemyFrame delta now p c) = []
           \<and> groupRef c' \<noteq> None
           \<and> aggroState (enemy c') \<noteq> Attack \<and> aggroState (enemy c') \<noteq> Idle
           \<and> (etype e \<noteq> Deer \<longrightarrow>
                aggroState (enemy c') = Chase
              \<and> vx (obj_position g') = vx (obj_position g) + (vx p - vx ep) / d * (0.05 * delta * 60)
              \<and> vy (obj_position g') = vy (obj_position g)
              \<and> vz (obj_position g') = vz (obj_position g) + (vz p - vz ep) / d * (0.05 * delta * 60)
              \<and> sin (obj_rotation_y g') * h = vx p - vx ep
              \<and> cos (obj_rotation_y g') * h = vz p - vz ep)
           \<and> (etype e = Deer \<longrightarrow>
                aggroState (enemy c') = Flee
              \<and> vx (obj_position g') = vx (obj_position g) + (vx ep - vx p) / d * (0.08 * delta * 60)
              \<and> vy (obj_position g') = vy (obj_position g)
              \<and> vz (obj_position g') = vz (obj_position g) + (vz ep - vz p) / d * (0.08 * delta * 60)
              \<and> sin (obj_rotation_y g') * h = vx ep - vx p
              \<and> cos (obj_rotation_y g') * h = vz ep - vz p))"
proof -
  define ep where "ep = char_position (enemy c)"
  define d where "d = distanceTo ep p"
  define h where "h = sqrt ((vx p - vx ep) * (vx p - vx ep) + (vz p - vz ep) * (vz p - vz ep))"
  define c' where "c' = fst (enemyFrame delta now p c)"
  note F = enemyFrame_between_radii [OF assms, of delta now, folded c'_def ep_def]
  have d1: "vlength (sub ep p) = d" and d2: "vlength (sub p ep) = d"
    using vlength_sub_commute [of ep p] by (simp_all add: d_def distanceTo_def)
  have h1: "sqrt (vx (sub p ep) * vx (sub p ep) + vz (sub p ep) * vz (sub p ep)) = h"
    by (simp add: h_def sub_def)
  have "(vx ep - vx p) * (vx ep - vx p) = (vx p - vx ep) * (vx p - vx ep)"
    "(vz ep - vz p) * (vz ep - vz p) = (vz p - vz ep) * (vz p - vz ep)"
    by (simp_all add: algebra_simps)
  then have h2: "sqrt (vx (sub ep p) * vx (sub ep p) + vz (sub ep p) * vz (sub ep p)) = h"
    by (simp add: h_def sub_def)
  have chase: "aggroState (enemy c') = Chase
      \<and> vx (obj_position (the (groupRef c'))) =
          vx (obj_position g) + (vx p - vx ep) / d * (0.05 * delta * 60)
      \<and> vy (obj_position (the (groupRef c'))) = vy (obj_position g)
      \<and> vz (obj_position (the (groupRef c'))) =
          vz (obj_position g) + (vz p - vz ep) / d * (0.05 * delta * 60)
      \<and> sin (obj_rotation_y (the (groupRef c'))) * h = vx p - vx ep
      \<and> cos (obj_rotation_y (the (groupRef c'))) * h = vz p - vz ep"
    if "etype (enemy c) \<noteq> Deer"
    using F(2,3) [OF that] heading_of_normalized [of "sub p ep"]
    by (simp add: moveGroup_fields normalize_components d2 h1) (simp add: sub_def)
  have flee: "aggroState (enemy c') = Flee
      \<and> vx (obj_position (the (groupRef c'))) =
          vx (obj_position g) + (vx ep - vx p) / d * (0.08 * delta * 60)
      \<and> vy (obj_position (the (groupRef c'))) = vy (obj_position g)
      \<and> vz (obj_position (the (groupRef c'))) =
          vz (obj_position g) + (vz ep - vz p) / d * (0.08 * delta * 60)
      \<and> sin (obj_rotation_y (the (groupRef c'))) * h = vx ep - vx p
      \<and> cos (obj_rotation_y (the (groupRef c'))) * h = vz ep - vz p"
    if "etype (enemy c) = Deer"
    using F(4,5) [OF that] heading_of_normalized [of "sub ep p"]
    by (simp add: moveGroup_fields normalize_components d1 h2) (simp add: sub_def)
  have states: "aggroState (enemy c') \<noteq> Attack \<and> aggroState (enemy c') \<noteq> Idle"
    using chase flee by (cases "etype (enemy c) = Deer") simp_all
  have present: "groupRef c' \<noteq> None"
    using F(3,5) by (cases "etype (enemy c) = Deer") simp_all
  from F(1) present states chase flee show ?thesis
    unfolding Let_def ep_def [symmetric] d_def [symmetric] h_def [symmetric] c'_def [symmetric]
    by blast
qed


lemma sqrt_9: "sqrt (9::real) = 3"
  using real_sqrt_abs [of "3::real"] by simp

theorem enemy_between_radii_witness:
  "groupRef (mountEnemy ''wolf-0'' Wolf (vec3 0 0 3))
     = Some \<lparr>obj_position = vec3 0 0 3, obj_rotation_y = 0\<rparr>
   \<and> \<not> isDead (enemy (mountEnemy ''wolf-0'' Wolf (vec3 0 0 3)))
   \<and> attackRadius (enemy (mountEnemy ''wolf-0'' Wolf (vec3 0 0 3)))
       < distanceTo (char_position (enemy (mountEnemy ''wolf-0'' Wolf (vec3 0 0 3)))) (vec3 0 0 0)
   \<and> distanceTo (char_position (enemy (mountEnemy ''wolf-0'' Wolf (vec3 0 0 3)))) (vec3 0 0 0)
       \<le> detectionRadius (enemy (mountEnemy ''wolf-0'' Wolf (vec3 0 0 3)))
   \<and> etype (enemy (mountEnemy ''wolf-0'' Wolf (vec3 0 0 3))) \<noteq> Deer
   \<and> aggroState (enemy (fst (enemyFrame (1 / 60) 0 (vec3 0 0 0)
        (mountEnemy ''wolf-0'' Wolf (vec3 0 0 3))))) = Chase
   \<and> vz (obj_position (the (groupRef (fst (enemyFrame (1 / 60) 0 (vec3 0 0 0)
        (mountEnemy ''wolf-0'' Wolf (vec3 0 0 3))))))) = 3 + (0 - 3) / 3 * (0.05 * (1 / 60) * 60)"
proof -
  let ?c = "mountEnemy ''wolf-0'' Wolf (vec3 0 0 3)"
  have d: "distanceTo (char_position (enemy ?c)) (vec3 0 0 0) = 3"
    by (simp add: mountEnemy_def initialEnemy_def distanceTo_def vlength_def sub_def vec3_def
        sqrt_9)
  have h: "groupRef ?c = Some \<lparr>obj_position = vec3 0 0 3, obj_rotation_y = 0\<rparr>"
    "\<not> isDead (enemy ?c)"
    "attackRadius (enemy ?c) < distanceTo (char_position (enemy ?c)) (vec3 0 0 0)"
    "distanceTo (char_position (enemy ?c)) (vec3 0 0 0) \<le> detectionRadius (enemy ?c)"
    unfolding d by (simp_all add: mountEnemy_def initialEnemy_def)
  have t: "etype (enemy ?c) \<noteq> Deer" by (simp add: mountEnemy_def initialEnemy_def)
  have v: "vz (char_position (enemy ?c)) = 3" "vz (vec3 0 0 0) = 0"
    by (simp_all add: mountEnemy_def initialEnemy_def vec3_def)
  from enemy_between_radii [OF h, of "1 / 60" 0] t
  have "aggroState (enemy (fst (enemyFrame (1 / 60) 0 (vec3 0 0 0) ?c))) = Chase"
    and "vz (obj_position (the (groupRef (fst (enemyFrame (1 / 60) 0 (vec3 0 0 0) ?c)))))
      = vz (obj_position \<lparr>obj_position = vec3 0 0 3, obj_rotation_y = 0\<rparr>)
        + (vz (vec3 0 0 0) - vz (char_position (enemy ?c)))
          / distanceTo (char_position (enemy ?c)) (vec3 0 0 0) * (0.05 * (1 / 60) * 60)"
    unfolding Let_def by blast+
  then have "aggroState (enemy (fst (enemyFrame (1 / 60) 0 (vec3 0 0 0) ?c))) = Chase
    \<and> vz (obj_position (the (groupRef (fst (enemyFrame (1 / 60) 0 (vec3 0 0 0) ?c)))))
      = 3 + (0 - 3) / 3 * (0.05 * (1 / 60) * 60)"
    unfolding d v by (simp add: vec3_def)
  with h t show ?thesis by blast
qed

subsection \<open>The player's boundary\<close>

lemma moveDirection_backward_only:
  assumes "\<not> moveForward controls" "\<not> moveLeft controls" "\<not> moveRight controls"
  shows "vlength (moveDirection camForward camRight controls) = 0"
  using assms by (simp add: moveDirection_def Let_def vlength_def vec3_def)

lemma playerMove_clamped:
  assumes "pgroup c = Some g"
    and "vlength (moveDirection camForward camRight controls) \<noteq> 0"
  shows "pgroup (fst (playerMove delta camForward camRight controls c)) \<noteq> None"
    and "vx (obj_position (the (pgroup (fst (playerMove delta camForward camRight controls c))))) =
           max (- 50) (min 50 (vx (obj_position g)
             + vx (if moveBackward controls
                   then normalize (add (normalize (moveDirection camForward camRight controls))
                          (multiplyScalar
                             (vec3 (- sin (obj_rotation_y g)) 0 (- cos (obj_rotation_y g))) 0.3))
                   else normalize (moveDirection camForward camRight controls))
               * (moveSpeed (player c) * delta * 60)))"
    and "vz (obj_position (the (pgroup (fst (playerMove delta camForward camRight controls c))))) =
           max (- 50) (min 50 (vz (obj_position g)
             + vz (if moveBackward controls
                   then normalize (add (normalize (moveDirection camForward camRight controls))
                          (multiplyScalar
                             (vec3 (- sin (obj_rotation_y g)) 0 (- cos (obj_rotation_y g))) 0.3))
                   else normalize (moveDirection camForward camRight controls))
               * (moveSpeed (player c) * delta * 60)))"
    and "vy (obj_position (the (pgroup (fst (playerMove delta camForward camRight controls c))))) =
           vy (obj_position g)"
    and "snd (playerMove delta camForward camRight controls c) =
           [obj_position (the (pgroup (fst (playerMove delta camForward camRight controls c))))]"
    and "char_position (player (fst (playerMove delta camForward camRight controls c))) =
           obj_position (the (pgroup (fst (playerMove delta camForward camRight controls c))))"
proof -
  from assms(2) vlength_nonneg [of "moveDirection camForward camRight controls"]
  have pos: "0 < vlength (moveDirection camForward camRight controls)" by simp
  show "pgroup (fst (playerMove delta camForward camRight controls c)) \<noteq> None"
    using assms(1) pos by (simp add: playerMove_def Let_def)
  show "vx (obj_position (the (pgroup (fst (playerMove delta camForward camRight controls c))))) =
           max (- 50) (min 50 (vx (obj_position g)
             + vx (if moveBackward controls
                   then normalize (add (normalize (moveDirection camForward camRight controls))
                          (multiplyScalar
                             (vec3 (- sin (obj_rotation_y g)) 0 (- cos (obj_rotation_y g))) 0.3))
                   else normalize (moveDirection camForward camRight controls))
               * (moveSpeed (player c) * delta * 60)))"
    using assms(1) pos by (simp add: playerMove_def Let_def)
  show "vz (obj_position (the (pgroup (fst (playerMove delta camForward camRight controls c))))) =
           max (- 50) (min 50 (vz (obj_position g)
             + vz (if moveBackward controls
                   then normalize (add (normalize (moveDirection camForward camRight controls))
                          (multiplyScalar
                             (vec3 (- sin (obj_rotation_y g)) 0 (- cos (obj_rotation_y g))) 0.3))
                   else normalize (moveDirection camForward camRight controls))
               * (moveSpeed (player c) * delta * 60)))"
    using assms(1) pos by (simp add: playerMove_def Let_def)
  show "vy (obj_position (the (pgroup (fst (playerMove delta camForward camRight controls c))))) =
           vy (obj_position g)"
    using assms(1) pos by (simp add: playerMove_def Let_def)
  show "snd (playerMove delta camForward camRight controls c) =
           [obj_position (the (pgroup (fst (playerMove delta camForward camRight controls c))))]"
    using assms(1) pos by (simp add: playerMove_def Let_def)
  show "char_position (player (fst (playerMove delta camForward camRight controls c))) =
           obj_position (the (pgroup (fst (playerMove delta camForward camRight controls c))))"
    using assms(1) pos by (simp add: playerMove_def Let_def)
qed

lemma clamp_in_bounds:
  fixes v :: real
  shows "- 50 \<le> max (- 50) (min 50 v)" "max (- 50) (min 50 v) \<le> 50"
  by simp_all

lemma playerMove_backward:
  assumes "pgroup c = Some g" and "moveBackward controls"
    and "vlength (moveDirection camForward camRight controls) = 0"
  shows "pgroup (fst (playerMove delta camForward camRight controls c)) =
     Some (g\<lparr>obj_position := (obj_position g)
       \<lparr>vx := vx (obj_position g) + (- sin (obj_rotation_y g)) * (moveSpeed (player c) * delta * 60),
        vz := vz (obj_position g) + (- cos (obj_rotation_y g)) * (moveSpeed (player c) * delta * 60)\<rparr>\<rparr>)"
  using assms by (simp add: playerMove_def Let_def vec3_def)

text \<open>
  C9. In a frame of a player with a scene group: whenever the combined direction \<open>md\<close> of
  the forward, left and right inputs is not zero, the player steps by the move distance
  along the normalised direction (\<open>md\<close> normalised, with 30 percent of the backward vector
  mixed in and normalised again when backward is held too), and the resulting \<open>x\<close> and
  \<open>z\<close> are that moved coordinate clamped to \<open>[-50, 50]\<close>:
  \<open>x' = max (-50) (min 50 (x + dir.x * moveDistance))\<close>, likewise \<open>z'\<close>; the height is
  kept, and this position is what the frame reports and records. A frame with the
  backward input alone has a zero combined direction and adds the backward vector
  \<open>(- sin r, 0, - cos r)\<close> times the move distance to the position with no bound: from
  \<open>z = -50\<close>, facing along \<open>z\<close>, one such frame of a sixtieth of a second ends at
  \<open>z = -50.15\<close>.
\<close>

theorem player_boundary_clamp:
  assumes "pgroup c = Some g"
  shows "(vlength (moveDirection camForward camRight controls) \<noteq> 0 \<longrightarrow>
           (let backDir = vec3 (- sin (obj_rotation_y g)) 0 (- cos (obj_rotation_y g));
                md1 = normalize (moveDirection camForward camRight controls);
                md2 = (if moveBackward controls
                       then normalize (add md1 (multiplyScalar backDir 0.3)) else md1);
                moveDistance = moveSpeed (player c) * delta * 60;
                p' = obj_position
                       (the (pgroup (fst (playerMove delta camForward camRight controls c))))
            in pgroup (fst (playerMove delta camForward camRight controls c)) \<noteq> None
             \<and> vx p' = max (- 50) (min 50 (vx (obj_position g) + vx md2 * moveDistance))
             \<and> vz p' = max (- 50) (min 50 (vz (obj_position g) + vz md2 * moveDistance))
             \<and> vy p' = vy (obj_position g)
             \<and> - 50 \<le> vx p' \<and> vx p' \<le> 50 \<and> - 50 \<le> vz p' \<and> vz p' \<le> 50
             \<and> snd (playerMove delta camForward camRight controls c) = [p']
             \<and> char_position (player (fst (playerMove delta camForward camRight controls c)))
                 = p'))
       \<and> (moveBackward controls \<and> \<not> moveForward controls \<and> \<not> moveLeft controls
            \<and> \<not> moveRight controls \<longrightarrow>
            vlength (moveDirection camForward camRight controls) = 0
          \<and> pgroup (fst (playerMove delta camForward camRight controls c)) =
              Some (g\<lparr>obj_position := (obj_position g)
                \<lparr>vx := vx (obj_position g)
                         + (- sin (obj_rotation_y g)) * (moveSpeed (player c) * delta * 60),
                 vz := vz (obj_position g)
                         + (- cos (obj_rotation_y g)) * (moveSpeed (player c) * delta * 60)\<rparr>\<rparr>))
       \<and> vz (obj_position (the (pgroup (fst (playerMove (1 / 60) (vec3 0 0 (- 1)) (vec3 1 0 0)
            \<lparr>moveForward = False, moveBackward = True, moveLeft = False, moveRight = False,
             attack = False, block = False\<rparr>
            \<lparr>player = initialPlayer,
             pgroup = Some \<lparr>obj_position = vec3 0 0 (- 50), obj_rotation_y = 0\<rparr>,
             currentAnimation = ''idle'', playerDirection = vec3 0 0 1\<rparr>))))) = - 50.15"
proof -
  let ?b = "\<lparr>moveForward = False, moveBackward = True, moveLeft = False, moveRight = False,
             attack = False, block = False\<rparr>"
  let ?c0 = "\<lparr>player = initialPlayer,
             pgroup = Some \<lparr>obj_position = vec3 0 0 (- 50), obj_rotation_y = 0\<rparr>,
             currentAnimation = ''idle'', playerDirection = vec3 0 0 1\<rparr>"
  have z: "vlength (moveDirection (vec3 0 0 (- 1)) (vec3 1 0 0) ?b) = 0"
    by (rule moveDirection_backward_only) simp_all
  have "pgroup ?c0 = Some \<lparr>obj_position = vec3 0 0 (- 50), obj_rotation_y = 0\<rparr>"
    "moveBackward ?b"
    by simp_all
  from playerMove_backward [OF this z, of "1 / 60"]
  have ex: "vz (obj_position (the (pgroup (fst (playerMove (1 / 60) (vec3 0 0 (- 1)) (vec3 1 0 0)
      ?b ?c0))))) = - 50.15"
    by (simp add: initialPlayer_def vec3_def)
  have clamp: "(let backDir = vec3 (- sin (obj_rotation_y g)) 0 (- cos (obj_rotation_y g));
                md1 = normalize (moveDirection camForward camRight controls);
                md2 = (if moveBackward controls
                       then normalize (add md1 (multiplyScalar backDir 0.3)) else md1);
                moveDistance = moveSpeed (player c) * delta * 60;
                p' = obj_position
                       (the (pgroup (fst (playerMove delta camForward camRight controls c))))
            in pgroup (fst (playerMove delta camForward camRight controls c)) \<noteq> None
             \<and> vx p' = max (- 50) (min 50 (vx (obj_position g) + vx md2 * moveDistance))
             \<and> vz p' = max (- 50) (min 50 (vz (obj_position g) + vz md2 * moveDistance))
             \<and> vy p' = vy (obj_position g)
             \<and> - 50 \<le> vx p' \<and> vx p' \<le> 50 \<and> - 50 \<le> vz p' \<and> vz p' \<le> 50
             \<and> snd (playerMove delta camForward camRight controls c) = [p']
             \<and> char_position (player (fst (playerMove delta camForward camRight controls c)))
                 = p')"
    if nz: "vlength (moveDirection camForward camRight controls) \<noteq> 0"
  proof -
    note M = playerMove_clamped [OF assms nz, of delta]
    have bx: "- 50 \<le> vx (obj_position (the (pgroup (fst (playerMove delta camForward camRight controls c)))))"
      "vx (obj_position (the (pgroup (fst (playerMove delta camForward camRight controls c))))) \<le> 50"
      unfolding M(2) by (rule clamp_in_bounds)+
    have bz: "- 50 \<le> vz (obj_position (the (pgroup (fst (playerMove delta camForward camRight controls c)))))"
      "vz (obj_position (the (pgroup (fst (playerMove delta camForward camRight controls c))))) \<le> 50"
      unfolding M(3) by (rule clamp_in_bounds)+
    have eqs: "vx (obj_position (the (pgroup (fst (playerMove delta camForward camRight controls c))))) =
        max (- 50) (min 50 (vx (obj_position g)
          + vx (if moveBackward controls
                then normalize (add (normalize (moveDirection camForward camRight controls))
                       (multiplyScalar
                          (vec3 (- sin (obj_rotation_y g)) 0 (- cos (obj_rotation_y g))) 0.3))
                else normalize (moveDirection camForward camRight controls))
            * (moveSpeed (player c) * delta * 60)))"
      "vz (obj_position (the (pgroup (fst (playerMove delta camForward camRight controls c))))) =
        max (- 50) (min 50 (vz (obj_position g)
          + vz (if moveBackward controls
                then normalize (add (normalize (moveDirection camForward camRight controls))
                       (multiplyScalar
                          (vec3 (- sin (obj_rotation_y g)) 0 (- cos (obj_rotation_y g))) 0.3))
                else normalize (moveDirection camForward camRight controls))
            * (moveSpeed (player c) * delta * 60)))"
      by (rule M(2), rule M(3))
    show ?thesis
      unfolding Let_def
      using M(1) eqs M(4) bx bz M(5) M(6) by blast
  qed
  show ?thesis
    using clamp
      moveDirection_backward_only [of controls camForward camRight]
      playerMove_backward [OF assms, of controls camForward camRight delta]
      ex
    by blast
qed

theorem player_boundary_clamp_witness:
  "pgroup \<lparr>player = initialPlayer,
           pgroup = Some \<lparr>obj_position = vec3 0 0 (- 50), obj_rotation_y = 0\<rparr>,
           currentAnimation = ''idle'', playerDirection = vec3 0 0 1\<rparr>
     = Some \<lparr>obj_position = vec3 0 0 (- 50), obj_rotation_y = 0\<rparr>
   \<and> vlength (moveDirection (vec3 0 0 (- 1)) (vec3 1 0 0)
        \<lparr>moveForward = True, moveBackward = False, moveLeft = False, moveRight = False,
         attack = False, block = False\<rparr>) \<noteq> 0
   \<and> vz (obj_position (the (pgroup (fst (playerMove (1 / 60) (vec3 0 0 (- 1)) (vec3 1 0 0)
        \<lparr>moveForward = True, moveBackward = False, moveLeft = False, moveRight = False,
         attack = False, block = False\<rparr>
        \<lparr>player = initialPlayer,
         pgroup = Some \<lparr>obj_position = vec3 0 0 (- 50), obj_rotation_y = 0\<rparr>,
         currentAnimation = ''idle'', playerDirection = vec3 0 0 1\<rparr>))))) = - 50
   \<and> vz (obj_position (the (pgroup (fst (playerMove (1 / 60) (vec3 0 0 1) (vec3 1 0 0)
        \<lparr>moveForward = True, moveBackward = False, moveLeft = False, moveRight = False,
         attack = False, block = False\<rparr>
        \<lparr>player = initialPlayer,
         pgroup = Some \<lparr>obj_position = vec3 0 0 (- 50), obj_rotation_y = 0\<rparr>,
         currentAnimation = ''idle'', playerDirection = vec3 0 0 1\<rparr>))))) = - 49.85
   \<and> moveBackward \<lparr>moveForward = False, moveBackward = True, moveLeft = False,
         moveRight = False, attack = False, block = False\<rparr>
   \<and> vlength (moveDirection (vec3 0 0 (- 1)) (vec3 1 0 0)
        \<lparr>moveForward = False, moveBackward = True, moveLeft = False, moveRight = False,
         attack = False, block = False\<rparr>) = 0"
proof -
  let ?f = "\<lparr>moveForward = True, moveBackward = False, moveLeft = False, moveRight = False,
         attack = False, block = False\<rparr>"
  let ?b = "\<lparr>moveForward = False, moveBackward = True, moveLeft = False, moveRight = False,
         attack = False, block = False\<rparr>"
  let ?c0 = "\<lparr>player = initialPlayer,
         pgroup = Some \<lparr>obj_position = vec3 0 0 (- 50), obj_rotation_y = 0\<rparr>,
         currentAnimation = ''idle'', playerDirection = vec3 0 0 1\<rparr>"
  have h: "pgroup ?c0 = Some \<lparr>obj_position = vec3 0 0 (- 50), obj_rotation_y = 0\<rparr>"
    by simp
  have md: "moveDirection (vec3 0 0 (- 1)) (vec3 1 0 0) ?f = vec3 0 0 (- 1)"
    "moveDirection (vec3 0 0 1) (vec3 1 0 0) ?f = vec3 0 0 1"
    by (simp_all add: moveDirection_def Let_def vlength_def vec3_def normalize_def add_def)
  have nz: "vlength (moveDirection (vec3 0 0 (- 1)) (vec3 1 0 0) ?f) \<noteq> 0"
    "vlength (moveDirection (vec3 0 0 1) (vec3 1 0 0) ?f) \<noteq> 0"
    unfolding md by (simp_all add: vlength_def vec3_def)
  have b: "moveBackward ?b \<and> \<not> moveForward ?b \<and> \<not> moveLeft ?b \<and> \<not> moveRight ?b"
    by simp
  from player_boundary_clamp [OF h, of "vec3 0 0 (- 1)" "vec3 1 0 0" ?f "1 / 60"] nz(1)
  have "vz (obj_position (the (pgroup (fst (playerMove (1 / 60) (vec3 0 0 (- 1))
      (vec3 1 0 0) ?f ?c0))))) =
      max (- 50) (min 50 (vz (obj_position \<lparr>obj_position = vec3 0 0 (- 50), obj_rotation_y = 0\<rparr>)
        + vz (normalize (moveDirection (vec3 0 0 (- 1)) (vec3 1 0 0) ?f))
          * (moveSpeed (player ?c0) * (1 / 60) * 60)))"
    unfolding Let_def by simp
  then have inward: "vz (obj_position (the (pgroup (fst (playerMove (1 / 60) (vec3 0 0 (- 1))
      (vec3 1 0 0) ?f ?c0))))) = - 50"
    unfolding md by (simp add: normalize_def vlength_def vec3_def initialPlayer_def Let_def)
  from player_boundary_clamp [OF h, of "vec3 0 0 1" "vec3 1 0 0" ?f "1 / 60"] nz(2)
  have "vz (obj_position (the (pgroup (fst (playerMove (1 / 60) (vec3 0 0 1)
      (vec3 1 0 0) ?f ?c0))))) =
      max (- 50) (min 50 (vz (obj_position \<lparr>obj_position = vec3 0 0 (- 50), obj_rotation_y = 0\<rparr>)
        + vz (normalize (moveDirection (vec3 0 0 1) (vec3 1 0 0) ?f))
          * (moveSpeed (player ?c0) * (1 / 60) * 60)))"
    unfolding Let_def by simp
  then have outward: "vz (obj_position (the (pgroup (fst (playerMove (1 / 60) (vec3 0 0 1)
      (vec3 1 0 0) ?f ?c0))))) = - 49.85"
    unfolding md by (simp add: normalize_def vlength_def vec3_def initialPlayer_def Let_def)
  from player_boundary_clamp [OF h, of "vec3 0 0 (- 1)" "vec3 1 0 0" ?b "1 / 60"] b
  have "vlength (moveDirection (vec3 0 0 (- 1)) (vec3 1 0 0) ?b) = 0"
    by blast
  with inward outward show ?thesis using h nz(1) b by blast
qed

end
